theory Spec2Isabelle
  imports Main "HOL-Library.AList"
begin

section \<open>Data model (services/types.ts)\<close>

text \<open>
  \<^verbatim>\<open>Role = 'user' | 'assistant' | 'system' | 'tool'\<close>.  A tool call as the chat-completion
  API returns it: \<^verbatim>\<open>{id, type, function: {name, arguments}}\<close>; a missing or empty name or
  argument text is the empty string (both are falsy in the source's tests).
  In a message, \<^verbatim>\<open>content\<close> may be null (an assistant message that only carries tool
  calls), \<^verbatim>\<open>tool_calls\<close> and \<^verbatim>\<open>tool_call_id\<close> are optional fields.
\<close>

datatype role = User | Assistant | System | Tool

record tool_call =
  tc_id :: string
  fn_name :: string
  fn_arguments :: string

record message =
  role :: role
  content :: "string option"
  tool_calls :: "tool_call list option"
  tool_call_id :: "string option"

text \<open>JavaScript truthiness of an optional string and of \<^verbatim>\<open>m.tool_calls && m.tool_calls.length > 0\<close>.\<close>

fun truthy :: "string option \<Rightarrow> bool" where
  "truthy None = False"
| "truthy (Some s) = (s \<noteq> [])"

definition calls_of :: "message \<Rightarrow> tool_call list" where
  "calls_of m = (case tool_calls m of None \<Rightarrow> [] | Some cs \<Rightarrow> cs)"

definition has_tool_calls :: "message \<Rightarrow> bool" where
  "has_tool_calls m = (role m = Assistant \<and> calls_of m \<noteq> [])"

definition is_tool_response :: "message \<Rightarrow> bool" where
  "is_tool_response m = (role m = Tool \<and> truthy (tool_call_id m))"

text \<open>\<^verbatim>\<open>array.splice(i, 1)\<close> and \<^verbatim>\<open>array.splice(i, 0, x)\<close>; an index past the end removes
  nothing, respectively appends.\<close>

definition splice_remove :: "nat \<Rightarrow> 'a list \<Rightarrow> 'a list" where
  "splice_remove i xs = take i xs @ drop (Suc i) xs"

definition splice_insert :: "nat \<Rightarrow> 'a \<Rightarrow> 'a list \<Rightarrow> 'a list" where
  "splice_insert i x xs = take i xs @ x # drop i xs"

text \<open>\<^verbatim>\<open>indices.sort((a, b) => b - a)\<close> followed by one \<^verbatim>\<open>splice(index, 1)\<close> per index.\<close>

definition remove_descending :: "nat list \<Rightarrow> 'a list \<Rightarrow> 'a list" where
  "remove_descending idxs xs = fold splice_remove (rev (sort idxs)) xs"

section \<open>ConversationManager\<close>

definition maxHistoryLength :: nat where
  "maxHistoryLength = 10"

subsection \<open>sanitizeToolMessages\<close>

text \<open>
  The two \<^verbatim>\<open>Map\<close>s are association lists in insertion order (\<^verbatim>\<open>Map.set\<close> on a present key
  keeps its position, as \<^const>\<open>AList.update\<close> does), since \<^verbatim>\<open>forEach\<close> walks them in that
  order.
\<close>

definition record_calls :: "nat \<Rightarrow> message \<Rightarrow> (string \<times> nat) list \<Rightarrow> (string \<times> nat) list" where
  "record_calls i m acc =
     (if has_tool_calls m then fold (\<lambda>c a. AList.update (tc_id c) i a) (calls_of m) acc else acc)"

definition record_response ::
  "nat \<Rightarrow> message \<Rightarrow> (string \<times> nat list) list \<Rightarrow> (string \<times> nat list) list" where
  "record_response i m acc =
     (if is_tool_response m then
        (let k = the (tool_call_id m);
             indices = (case map_of acc k of None \<Rightarrow> [] | Some is \<Rightarrow> is)
         in AList.update k (indices @ [i]) acc)
      else acc)"

definition assistantToolCalls :: "message list \<Rightarrow> (string \<times> nat) list" where
  "assistantToolCalls h = fold (\<lambda>i acc. record_calls i (h ! i) acc) [0..<length h] []"

definition toolResponses :: "message list \<Rightarrow> (string \<times> nat list) list" where
  "toolResponses h = fold (\<lambda>i acc. record_response i (h ! i) acc) [0..<length h] []"

definition orphanedToolResponses :: "message list \<Rightarrow> nat list" where
  "orphanedToolResponses h =
     concat (map snd (filter (\<lambda>(k, is). map_of (assistantToolCalls h) k = None) (toolResponses h)))"

definition orphanedToolCalls :: "message list \<Rightarrow> nat list" where
  "orphanedToolCalls h =
     remdups (map snd (filter (\<lambda>(k, i). map_of (toolResponses h) k = None) (assistantToolCalls h)))"

text \<open>Returns the history after the call and the number it reports as removed.\<close>

definition sanitizeToolMessages :: "message list \<Rightarrow> message list \<times> nat" where
  "sanitizeToolMessages h =
     (if length h = 0 then (h, 0)
      else if orphanedToolResponses h = [] \<and> orphanedToolCalls h = [] then (h, 0)
      else (let allOrphanedIndices = orphanedToolResponses h @ orphanedToolCalls h
            in (remove_descending allOrphanedIndices h, length allOrphanedIndices)))"

subsection \<open>safelyTruncateConversationHistory\<close>

text \<open>
  Step 1 of the source: \<^verbatim>\<open>toolCallMap\<close> (call id to assistant index) and
  \<^verbatim>\<open>toolResponseMap\<close> (assistant index to the indices of its responses), filled in one
  forward pass.  They are only looked up, never iterated, so they are partial functions.
\<close>

definition truncate_step ::
  "message list \<Rightarrow> nat \<Rightarrow> (string \<rightharpoonup> nat) \<times> (nat \<rightharpoonup> nat list) \<Rightarrow> (string \<rightharpoonup> nat) \<times> (nat \<rightharpoonup> nat list)" where
  "truncate_step h i maps =
     (let m = h ! i;
          (cm, rm) = maps;
          (cm1, rm1) =
            (if has_tool_calls m
             then (fold (\<lambda>c f. f(tc_id c \<mapsto> i)) (calls_of m) cm, rm(i \<mapsto> []))
             else (cm, rm))
      in if is_tool_response m then
           (case cm1 (the (tool_call_id m)) of
              None \<Rightarrow> (cm1, rm1)
            | Some a \<Rightarrow>
                (cm1, rm1(a \<mapsto> (case rm1 a of None \<Rightarrow> [] | Some rs \<Rightarrow> rs) @ [i])))
         else (cm1, rm1))"

definition toolResponseMap :: "message list \<Rightarrow> (nat \<rightharpoonup> nat list)" where
  "toolResponseMap h = snd (fold (truncate_step h) [0..<length h] (Map.empty, Map.empty))"

definition minimumToKeep :: nat where
  "minimumToKeep = (maxHistoryLength div 2) * 2"

text \<open>The test that makes the scan stop at a user message: the next message is a
  tool-calling assistant and its last response lies in the part that must be kept.\<close>

definition blocked :: "message list \<Rightarrow> nat \<Rightarrow> bool" where
  "blocked h i =
     (let nextIndex = i + 1 in
      nextIndex < length h \<and> has_tool_calls (h ! nextIndex) \<and>
      (let responseIndices = (case toolResponseMap h nextIndex of None \<Rightarrow> [] | Some rs \<Rightarrow> rs);
           maxResponseIndex = fold max responseIndices nextIndex
       in maxResponseIndex \<ge> length h - minimumToKeep))"

text \<open>Step 2, the \<^verbatim>\<open>for\<close> loop with its two \<^verbatim>\<open>break\<close>s; the result is \<^verbatim>\<open>safeRemovalPoint\<close>.\<close>

function scan :: "message list \<Rightarrow> nat \<Rightarrow> nat \<Rightarrow> nat" where
  "scan h i safeRemovalPoint =
     (if i < length h - minimumToKeep then
        (if role (h ! i) = User then
           (if blocked h i then safeRemovalPoint
            else if i + 1 \<ge> length h - maxHistoryLength then i + 1
            else scan h (i + 1) (i + 1))
         else if safeRemovalPoint \<ge> length h - maxHistoryLength then safeRemovalPoint
         else scan h (i + 1) safeRemovalPoint)
      else safeRemovalPoint)"
  by pat_completeness auto
termination
  by (relation "measure (\<lambda>(h, i, s). length h - minimumToKeep - i)") auto

declare scan.simps [simp del]

text \<open>\<^verbatim>\<open>excessMessages\<close> is \<^verbatim>\<open>length - maxHistoryLength\<close>; its test repeats the first one.\<close>

definition safelyTruncateConversationHistory :: "message list \<Rightarrow> message list" where
  "safelyTruncateConversationHistory h =
     (if length h \<le> maxHistoryLength then h
      else if length h - maxHistoryLength \<le> 0 then h
      else (let safeRemovalPoint = scan h 0 0
            in if safeRemovalPoint > 0 then drop safeRemovalPoint h else h))"

definition addToConversationHistory :: "message \<Rightarrow> message list \<Rightarrow> message list" where
  "addToConversationHistory m h = safelyTruncateConversationHistory (h @ [m])"

subsection \<open>validateAndSanitizeConversationHistory\<close>

text \<open>First pass.  For the tool message at index \<open>i\<close>: the nearest earlier assistant message
  one of whose tool calls has the id (\<^verbatim>\<open>for (let j = i - 1; j >= 0; j--)\<close>).\<close>

definition matchingAssistantIndex :: "message list \<Rightarrow> nat \<Rightarrow> nat option" where
  "matchingAssistantIndex h i =
     List.find (\<lambda>j. role (h ! j) = Assistant \<and>
                    (case tool_calls (h ! j) of None \<Rightarrow> False
                     | Some cs \<Rightarrow> \<exists>c \<in> set cs. Some (tc_id c) = tool_call_id (h ! i)))
               (rev [0..<i])"

definition hasInterveningMessages :: "message list \<Rightarrow> nat \<Rightarrow> nat \<Rightarrow> bool" where
  "hasInterveningMessages h a i = (\<exists>k \<in> set [a + 1..<i]. role (h ! k) \<noteq> Tool)"

definition firstPassRemovals :: "message list \<Rightarrow> nat list" where
  "firstPassRemovals h =
     filter (\<lambda>i. is_tool_response (h ! i) \<and>
                  (case matchingAssistantIndex h i of
                     None \<Rightarrow> True
                   | Some a \<Rightarrow> hasInterveningMessages h a i))
            [0..<length h]"

text \<open>Second pass.  A tool call has its response when a tool message with its id stands in
  the run of tool messages right after the assistant message.\<close>

definition foundToolResponse :: "message list \<Rightarrow> nat \<Rightarrow> tool_call \<Rightarrow> bool" where
  "foundToolResponse h i c =
     (\<exists>m \<in> set (takeWhile (\<lambda>m. role m = Tool) (drop (i + 1) h)). tool_call_id m = Some (tc_id c))"

definition missingToolResponses :: "message list \<Rightarrow> nat \<Rightarrow> string list" where
  "missingToolResponses h i =
     map tc_id (filter (\<lambda>c. \<not> foundToolResponse h i c) (calls_of (h ! i)))"

definition messagesToFix :: "message list \<Rightarrow> (nat \<times> string list) list" where
  "messagesToFix h =
     map (\<lambda>i. (i, missingToolResponses h i))
         (filter (\<lambda>i. has_tool_calls (h ! i) \<and> missingToolResponses h i \<noteq> []) [0..<length h])"

text \<open>The pass for partially streamed tool calls: the assistant message and every later tool
  message answering one of its call ids.\<close>

definition incomplete :: "message \<Rightarrow> bool" where
  "incomplete m = (has_tool_calls m \<and> (\<exists>c \<in> set (calls_of m). fn_name c = [] \<or> fn_arguments c = []))"

definition incompleteRemovals :: "message list \<Rightarrow> nat list" where
  "incompleteRemovals h =
     concat (map (\<lambda>i. if incomplete (h ! i)
                       then i # filter (\<lambda>j. is_tool_response (h ! j) \<and>
                                             the (tool_call_id (h ! j)) \<in> set (map tc_id (calls_of (h ! i))))
                                       [i + 1..<length h]
                       else [])
                 [0..<length h])"

definition messagesToRemove :: "message list \<Rightarrow> nat list" where
  "messagesToRemove h = remdups (firstPassRemovals h @ incompleteRemovals h)"

definition dummyResponse :: "string \<Rightarrow> message" where
  "dummyResponse tid =
     \<lparr>role = Tool, content = Some ''Tool execution failed or timed out.'',
      tool_calls = None, tool_call_id = Some tid\<rparr>"

text \<open>Fourth pass, one entry of \<^verbatim>\<open>messagesToFix\<close>: the index was computed before the removals
  and is used on the history after them.\<close>

definition applyFix :: "nat \<times> string list \<Rightarrow> message list \<Rightarrow> message list" where
  "applyFix fx vh =
     (let (index, missing) = fx in
      if index < length vh \<and> role (vh ! index) = Assistant \<and> tool_calls (vh ! index) \<noteq> None
      then fold (\<lambda>tid acc. splice_insert (index + 1) (dummyResponse tid) acc) missing vh
      else vh)"

definition validateAndSanitizeConversationHistory :: "message list \<Rightarrow> message list" where
  "validateAndSanitizeConversationHistory h =
     fold applyFix (rev (messagesToFix h)) (remove_descending (messagesToRemove h) h)"

section \<open>The pairing invariant of the specification\<close>

text \<open>
  In the words of the specification: every tool-role message's \<^verbatim>\<open>tool_call_id\<close> matches
  exactly one earlier assistant tool call, and every assistant tool call is followed,
  before any non-tool message, by exactly one tool-role message with the same id.
\<close>

definition earlierCalls :: "message list \<Rightarrow> nat \<Rightarrow> tool_call list" where
  "earlierCalls h j = concat (map calls_of (filter (\<lambda>m. role m = Assistant) (take j h)))"

definition responseMatchesOneCall :: "message list \<Rightarrow> nat \<Rightarrow> bool" where
  "responseMatchesOneCall h j =
     (length (filter (\<lambda>c. Some (tc_id c) = tool_call_id (h ! j)) (earlierCalls h j)) = 1)"

definition followingToolRun :: "message list \<Rightarrow> nat \<Rightarrow> message list" where
  "followingToolRun h k = takeWhile (\<lambda>m. role m = Tool) (drop (k + 1) h)"

definition callHasOneResponse :: "message list \<Rightarrow> nat \<Rightarrow> tool_call \<Rightarrow> bool" where
  "callHasOneResponse h k c =
     (length (filter (\<lambda>m. tool_call_id m = Some (tc_id c)) (followingToolRun h k)) = 1)"

definition pairing_invariant :: "message list \<Rightarrow> bool" where
  "pairing_invariant h =
     ((\<forall>j \<in> set [0..<length h]. role (h ! j) = Tool \<longrightarrow> responseMatchesOneCall h j) \<and>
      (\<forall>k \<in> set [0..<length h]. role (h ! k) = Assistant \<longrightarrow>
          (\<forall>c \<in> set (calls_of (h ! k)). callHasOneResponse h k c)))"

section \<open>External collaborators\<close>

text \<open>
  The chat-completion transport, the JSON parser, the tool implementations, the editor's
  confirmation prompt, the clock and the regular-expression engine are outside the
  repository's code; they are parameters of the model.  The world \<open>'w\<close> is whatever they
  read and change; \<open>'a\<close> is a parsed argument object.

  \<^item> \<open>createChatCompletion msgs tools w\<close>: the request's messages and whether the tool
    catalogue is sent; the result is a thrown \<^verbatim>\<open>Error\<close>'s message (\<open>Inl\<close>) or
    \<^verbatim>\<open>response.choices[0]?.message\<close> (\<open>Inr\<close>, \<open>None\<close> when there is no choice).
  \<^item> \<open>jsonParse\<close>: \<^verbatim>\<open>JSON.parse\<close>, \<open>Inl\<close> the message of the \<^verbatim>\<open>SyntaxError\<close>.
  \<^item> \<open>toolImpl\<close>: what a tool implementation does: it returns text, throws (the thrown
    value as \<^verbatim>\<open>String(error)\<close>), or is still pending when the timer fires.
  \<^item> \<open>showWarningMessage\<close>: \<open>True\<close> when the user picks \<^verbatim>\<open>'Approve'\<close>.
  \<^item> \<open>matchFilePaths\<close>: \<^verbatim>\<open>content.match(filePathPattern)\<close>, no match being \<open>[]\<close>.
  \<^item> \<open>stringField args p\<close>: \<^verbatim>\<open>args[p]\<close> when it is a string.
\<close>

datatype tool_outcome = Returns string | Throws string | TimesOut

record SummarizedHistoryMessage =
  summary_role :: role
  summary_content :: string
  summary_type :: string
  file_references :: "string list option"
  timestamp :: nat

record ('a, 'w) env =
  validateApiKey :: "bool \<times> string"
  createChatCompletion :: "message list \<Rightarrow> bool \<Rightarrow> 'w \<Rightarrow> (string + message option) \<times> 'w"
  jsonParse :: "string \<Rightarrow> string + 'a"
  toolImpl :: "string \<Rightarrow> 'a \<Rightarrow> 'w \<Rightarrow> tool_outcome \<times> 'w"
  showWarningMessage :: "'w \<Rightarrow> bool \<times> 'w"
  systemPrompt :: string
  projectPath :: string
  matchFilePaths :: "string \<Rightarrow> string list"
  stringField :: "'a \<Rightarrow> string \<Rightarrow> string option"
  jsonStringify :: "SummarizedHistoryMessage \<Rightarrow> string"
  now :: "'w \<Rightarrow> nat"

section \<open>Strings\<close>

text \<open>\<^verbatim>\<open>String.prototype.includes\<close> (\<open>str_includes\<close>, the name being a keyword) and the
  decimal rendering of a number in a template string.\<close>

primrec str_includes :: "string \<Rightarrow> string \<Rightarrow> bool" where
  "str_includes [] sub = (sub = [])"
| "str_includes (x # xs) sub = (take (length sub) (x # xs) = sub \<or> str_includes xs sub)"

definition digit :: "nat \<Rightarrow> char" where
  "digit d = char_of (48 + d)"

function show_nat :: "nat \<Rightarrow> string" where
  "show_nat n = (if n < 10 then [digit n] else show_nat (n div 10) @ [digit (n mod 10)])"
  by pat_completeness auto
termination
  by (relation "measure (\<lambda>n. n)") auto

declare show_nat.simps [simp del]

section \<open>ToolExecutor\<close>

definition breakingChangeTools :: "string list" where
  "breakingChangeTools = [''create_file'', ''update_file'', ''create_directory'', ''run_command'']"

definition requiresUserConfirmation :: "string \<Rightarrow> bool" where
  "requiresUserConfirmation toolName = (toolName \<in> set breakingChangeTools)"

text \<open>The \<^verbatim>\<open>switch\<close> of \<^verbatim>\<open>executeTool\<close>: the names it dispatches, and its default.\<close>

definition dispatchedTools :: "string list" where
  "dispatchedTools =
     [''done'', ''create_file'', ''update_file'', ''create_directory'', ''find_by_name'',
      ''list_dir'', ''tree_view'', ''view_file'', ''grep_search'', ''codebase_search'',
      ''view_code_item'', ''read_url_content'', ''search_web'', ''run_command'',
      ''checkDiagnostics'']"

definition executeTool :: "('a, 'w) env \<Rightarrow> string \<Rightarrow> 'a \<Rightarrow> 'w \<Rightarrow> tool_outcome \<times> 'w" where
  "executeTool e functionName functionArgs w =
     (if functionName \<in> set dispatchedTools then toolImpl e functionName functionArgs w
      else (Returns (''Tool '' @ functionName @ '' is not implemented yet.''), w))"

text \<open>\<^verbatim>\<open>executeWithTimeout\<close> only ever resolves: with the tool's text, with the text of what
  it threw, or with the timeout text (\<^verbatim>\<open>timeoutMs/1000\<close>; the one caller passes 30000).\<close>

definition executeWithTimeout ::
  "('a, 'w) env \<Rightarrow> string \<Rightarrow> 'a \<Rightarrow> nat \<Rightarrow> 'w \<Rightarrow> string \<times> 'w" where
  "executeWithTimeout e functionName functionArgs timeoutMs w =
     (case executeTool e functionName functionArgs w of
        (Returns result, w') \<Rightarrow> (result, w')
      | (Throws err, w') \<Rightarrow> (''Error executing tool: '' @ err, w')
      | (TimesOut, w') \<Rightarrow>
          (''Tool execution timed out after '' @ show_nat (timeoutMs div 1000) @ '' seconds'', w'))"

text \<open>\<^verbatim>\<open>executeToolWithTimeout\<close> awaits \<^verbatim>\<open>executeWithTimeout\<close> inside a \<^verbatim>\<open>try\<close>; the promise it
  awaits never rejects, so its \<^verbatim>\<open>catch\<close> has nothing to catch.\<close>

definition executeToolWithTimeout ::
  "('a, 'w) env \<Rightarrow> string \<Rightarrow> 'a \<Rightarrow> nat \<Rightarrow> 'w \<Rightarrow> string \<times> 'w" where
  "executeToolWithTimeout e functionName functionArgs timeoutMs w =
     executeWithTimeout e functionName functionArgs timeoutMs w"

section \<open>ToolCallProcessorService\<close>

text \<open>\<^verbatim>\<open>ToolCallResult\<close>; its \<^verbatim>\<open>tool_call_id\<close> and \<^verbatim>\<open>output\<close> fields are \<open>result_id\<close> and
  \<open>result_output\<close> here (the message record has the first name, the second is a keyword).\<close>

record ToolCallResult =
  result_id :: string
  result_output :: string
  success :: bool

text \<open>The body of the \<^verbatim>\<open>for\<close> loop: the \<^verbatim>\<open>try\<close> holds \<^verbatim>\<open>JSON.parse\<close> and the executor call, and
  only the former can throw.\<close>

definition processToolCall :: "('a, 'w) env \<Rightarrow> tool_call \<Rightarrow> 'w \<Rightarrow> ToolCallResult \<times> 'w" where
  "processToolCall e toolCall w =
     (case jsonParse e (fn_arguments toolCall) of
        Inl msg \<Rightarrow> (\<lparr>result_id = tc_id toolCall, result_output = ''Error: '' @ msg, success = False\<rparr>, w)
      | Inr functionArgs \<Rightarrow>
          (let (out, w') = executeToolWithTimeout e (fn_name toolCall) functionArgs 30000 w
           in (\<lparr>result_id = tc_id toolCall, result_output = out, success = True\<rparr>, w')))"

fun processEach :: "('a, 'w) env \<Rightarrow> tool_call list \<Rightarrow> 'w \<Rightarrow> ToolCallResult list \<times> 'w" where
  "processEach e [] w = ([], w)"
| "processEach e (toolCall # rest) w =
     (let (r, w1) = processToolCall e toolCall w;
          (rs, w2) = processEach e rest w1
      in (r # rs, w2))"

text \<open>The result is \<^verbatim>\<open>{requiresUserConfirmation: false, results}\<close>; the list of names is
  only logged.\<close>

definition processToolCalls ::
  "('a, 'w) env \<Rightarrow> tool_call list \<Rightarrow> string list \<Rightarrow> 'w \<Rightarrow> bool \<times> ToolCallResult list \<times> 'w" where
  "processToolCalls e toolCalls breakingTools w =
     (let (results, w') = processEach e toolCalls w in (False, results, w'))"

section \<open>MessageFormatterService and ResponseGeneratorService\<close>

definition systemMessage :: "string \<Rightarrow> message" where
  "systemMessage s = \<lparr>role = System, content = Some s, tool_calls = None, tool_call_id = None\<rparr>"

definition userMessage :: "string \<Rightarrow> message" where
  "userMessage s = \<lparr>role = User, content = Some s, tool_calls = None, tool_call_id = None\<rparr>"

definition formatMessages :: "string \<Rightarrow> message list \<Rightarrow> string option \<Rightarrow> message list" where
  "formatMessages prompt conversationHistory lastError =
     [systemMessage prompt] @
     (case lastError of
        None \<Rightarrow> []
      | Some msg \<Rightarrow>
          [userMessage (''There was an error in the previous step: '' @ msg @
                        ''. Please handle this gracefully and adjust your approach.'')]) @
     conversationHistory"

definition payloadSize :: "message \<Rightarrow> nat" where
  "payloadSize m =
     (case content m of None \<Rightarrow> 0 | Some s \<Rightarrow> length s) +
     sum_list (map (\<lambda>tc. length (fn_name tc) + length (fn_arguments tc)) (calls_of m))"

definition shouldSummarizeHistory :: "message list \<Rightarrow> nat \<Rightarrow> nat \<Rightarrow> bool" where
  "shouldSummarizeHistory conversationHistory maxPayloadSize maxMessages =
     (sum_list (map payloadSize conversationHistory) > maxPayloadSize \<or>
      length conversationHistory > maxMessages)"

definition generateFinalResponse :: "message \<Rightarrow> string" where
  "generateFinalResponse assistantMessage =
     (if truthy (content assistantMessage) then the (content assistantMessage)
      else if calls_of assistantMessage \<noteq> []
      then ''I'm working on your request. Let me analyze this further...''
      else [])"

section \<open>ConversationManager.summarizeConversationHistory\<close>

text \<open>\<^verbatim>\<open>fileReferences\<close> is a \<^verbatim>\<open>Set\<close>: insertion order, no duplicates.\<close>

definition addReference :: "string \<Rightarrow> string list \<Rightarrow> string list" where
  "addReference r refs = (if r \<in> set refs then refs else refs @ [r])"

definition contentReferences :: "('a, 'w) env \<Rightarrow> message \<Rightarrow> string list" where
  "contentReferences e m =
     (case content m of
        None \<Rightarrow> []
      | Some s \<Rightarrow> filter (\<lambda>p. CHR ''.'' \<in> set p \<and> \<not> (p \<noteq> [] \<and> last p = CHR ''/''))
                         (matchFilePaths e s))"

definition pathParameters :: "string list" where
  "pathParameters = [''FilePath'', ''DirectoryPath'', ''TargetFile'', ''AbsolutePath'']"

definition callReferences :: "('a, 'w) env \<Rightarrow> tool_call \<Rightarrow> string list" where
  "callReferences e toolCall =
     (case jsonParse e (fn_arguments toolCall) of
        Inl _ \<Rightarrow> []
      | Inr args \<Rightarrow>
          concat (map (\<lambda>param. case stringField e args param of
                                 None \<Rightarrow> []
                               | Some v \<Rightarrow> if v \<noteq> [] then [v] else [])
                      pathParameters))"

definition collectFileReferences :: "('a, 'w) env \<Rightarrow> message list \<Rightarrow> string list" where
  "collectFileReferences e h =
     fold (\<lambda>m refs. fold addReference (concat (map (callReferences e) (calls_of m)))
                       (fold addReference (contentReferences e m) refs))
          h []"

text \<open>The reduced view sent to the model.  The state is \<^verbatim>\<open>skipIndices\<close> and
  \<^verbatim>\<open>formattedConversation\<close>; a null content is rendered by \<^verbatim>\<open>JSON.stringify\<close>.\<close>

definition contentText :: "message \<Rightarrow> string" where
  "contentText m = (case content m of None \<Rightarrow> ''null'' | Some s \<Rightarrow> s)"

definition formatStep ::
  "message list \<Rightarrow> nat \<Rightarrow> nat list \<times> (role \<times> string) list \<Rightarrow> nat list \<times> (role \<times> string) list" where
  "formatStep h i acc =
     (let (skipIndices, formatted) = acc; m = h ! i in
      if i \<in> set skipIndices then acc
      else if has_tool_calls m then
        (fold (\<lambda>toolCall sk.
                 case List.find (\<lambda>j. role (h ! j) = Tool \<and> tool_call_id (h ! j) = Some (tc_id toolCall))
                                [i + 1..<length h] of
                   None \<Rightarrow> sk
                 | Some j \<Rightarrow> j # sk)
              (calls_of m) skipIndices,
         formatted @ (if truthy (content m) then [(role m, contentText m)] else []))
      else if role m = Tool then acc
      else (skipIndices, formatted @ [(role m, contentText m)]))"

definition formattedConversation :: "message list \<Rightarrow> (role \<times> string) list" where
  "formattedConversation h = snd (fold (formatStep h) [0..<length h] ([], []))"

definition summaryInstruction :: string where
  "summaryInstruction =
     ''Your task is to summarize the following conversation between a user and an AI assistant. '' @
     ''Focus on capturing the main topics discussed, key code snippets mentioned, important decisions made, '' @
     ''and the overall context of the conversation. Keep the summary concise but informative. '' @
     ''Make sure to preserve references to file paths and important code concepts.''"

definition summaryRequest :: "message list \<Rightarrow> message list" where
  "summaryRequest h =
     systemMessage summaryInstruction #
     map (\<lambda>(r, c). \<lparr>role = r, content = Some c, tool_calls = None, tool_call_id = None\<rparr>)
         (formattedConversation h)"

definition countRole :: "role \<Rightarrow> message list \<Rightarrow> nat" where
  "countRole r h = length (filter (\<lambda>m. role m = r) h)"

definition fallbackSummary :: "message list \<Rightarrow> string" where
  "fallbackSummary h =
     ''Conversation summary (fallback): '' @ show_nat (countRole User h) @ '' user messages, '' @
     show_nat (countRole Assistant h) @ '' assistant messages, '' @
     show_nat (countRole Tool h) @ '' tool interactions.''"

text \<open>The method reads \<^verbatim>\<open>this.conversationHistory\<close>; the result is the summary, the stored
  history after the call and the world after the call.\<close>

definition summarizeConversationHistory ::
  "('a, 'w) env \<Rightarrow> nat \<Rightarrow> message list \<Rightarrow> 'w \<Rightarrow> SummarizedHistoryMessage \<times> message list \<times> 'w" where
  "summarizeConversationHistory e maxTokens h w =
     (if length h = 0 then
        (\<lparr>summary_role = System, summary_content = ''No conversation history yet.'',
          summary_type = ''conversation_history'', file_references = None, timestamp = now e w\<rparr>,
         h, w)
      else
        (let fileReferences = collectFileReferences e h;
             (response, w') = createChatCompletion e (summaryRequest h) False w
         in case response of
              Inr reply \<Rightarrow>
                (\<lparr>summary_role = System,
                  summary_content =
                    (case reply of
                       None \<Rightarrow> ''Failed to generate conversation summary.''
                     | Some m \<Rightarrow> if truthy (content m) then the (content m)
                                else ''Failed to generate conversation summary.''),
                  summary_type = ''conversation_history'',
                  file_references = Some fileReferences, timestamp = now e w'\<rparr>,
                 h, w')
            | Inl _ \<Rightarrow>
                (\<lparr>summary_role = System, summary_content = fallbackSummary h,
                  summary_type = ''conversation_history'',
                  file_references = Some fileReferences, timestamp = now e w'\<rparr>,
                 h, w')))"

section \<open>AgentLoopService\<close>

definition MAX_ITERATIONS :: nat where
  "MAX_ITERATIONS = 10"

definition MAX_PAYLOAD_SIZE :: nat where
  "MAX_PAYLOAD_SIZE = 100000"

definition MAX_MESSAGES :: nat where
  "MAX_MESSAGES = 33"

definition BREAKING_CHANGE_TOOLS :: "string list" where
  "BREAKING_CHANGE_TOOLS = [''create_file'', ''update_file'', ''create_directory'', ''run_command'']"

definition clearConversationHistory :: "message list \<Rightarrow> message list" where
  "clearConversationHistory h = []"

text \<open>The variables of \<^verbatim>\<open>executeAgentLoop\<close> (an \<^verbatim>\<open>Error\<close> is its message), the store's history
  and the world.\<close>

record 'w loop_state =
  history :: "message list"
  lastError :: "string option"
  loopComplete :: bool
  forceExitLoop :: bool
  finalResponse :: string
  world :: 'w

definition withProjectPathSystemPrompt :: "('a, 'w) env \<Rightarrow> string" where
  "withProjectPathSystemPrompt e =
     systemPrompt e @ [CHR 0x0A, CHR 0x0A] @ ''Remember you are working in project path: '' @ projectPath e"

definition isValidationError :: "string \<Rightarrow> bool" where
  "isValidationError msg =
     (str_includes msg ''400 Invalid parameter'' \<or>
      str_includes msg ''messages with role 'tool' must be a response'' \<or>
      str_includes msg ''invalid_request_error'')"

definition apiResetMessage :: string where
  "apiResetMessage =
     ''I encountered an API error while processing your request. The conversation has been reset. Please try your question again with simpler instructions.''"

text \<open>\<^verbatim>\<open>clearConversationHistory(); msgs.forEach(msg => addToConversationHistory(msg))\<close>.\<close>

definition replay :: "message list \<Rightarrow> message list" where
  "replay msgs = fold addToConversationHistory msgs (clearConversationHistory [])"

text \<open>The start of an iteration up to the request: the formatted messages, or the summary
  followed by the last four messages; the stored history and the world afterwards.\<close>

definition prepareRequest ::
  "('a, 'w) env \<Rightarrow> 'w loop_state \<Rightarrow> message list \<times> message list \<times> 'w" where
  "prepareRequest e st =
     (let conversationHistory = history st;
          messages = formatMessages (withProjectPathSystemPrompt e) conversationHistory (lastError st)
      in if shouldSummarizeHistory conversationHistory MAX_PAYLOAD_SIZE MAX_MESSAGES \<and>
            length conversationHistory > 2
         then
           (let latestMessages = drop (length conversationHistory - 4) conversationHistory;
                olderMessages = take (length conversationHistory - 4) conversationHistory
            in if length olderMessages > 0 then
                 (let originalHistory = conversationHistory;
                      (summary, h1, w1) =
                         summarizeConversationHistory e 2000 (replay olderMessages) (world st);
                      h2 = replay originalHistory
                  in ([systemMessage (withProjectPathSystemPrompt e),
                       \<lparr>role = Assistant,
                        content = Some (if summary_content summary \<noteq> [] then summary_content summary
                                        else jsonStringify e summary),
                        tool_calls = None, tool_call_id = None\<rparr>] @ latestMessages,
                      h2, w1))
               else (messages, conversationHistory, world st))
         else (messages, conversationHistory, world st))"

text \<open>The \<^verbatim>\<open>catch\<close> of the iteration: the error becomes \<^verbatim>\<open>lastError\<close>, nothing else changes.\<close>

definition caught :: "string \<Rightarrow> 'w loop_state \<Rightarrow> 'w loop_state" where
  "caught msg st = st\<lparr>lastError := Some msg\<rparr>"

definition toolMessage :: "ToolCallResult \<Rightarrow> message" where
  "toolMessage r =
     \<lparr>role = Tool, content = Some (result_output r), tool_calls = None, tool_call_id = Some (result_id r)\<rparr>"

definition appendResults :: "ToolCallResult list \<Rightarrow> message list \<Rightarrow> message list" where
  "appendResults results h = fold (\<lambda>r acc. addToConversationHistory (toolMessage r) acc) results h"

text \<open>The iteration after the assistant message has been stored.\<close>

definition handleAssistantMessage ::
  "('a, 'w) env \<Rightarrow> message \<Rightarrow> 'w loop_state \<Rightarrow> 'w loop_state" where
  "handleAssistantMessage e assistantMessage st =
     (if calls_of assistantMessage = [] then
        st\<lparr>finalResponse := generateFinalResponse assistantMessage, loopComplete := True\<rparr>
      else
        (case List.find (\<lambda>toolCall. fn_name toolCall = ''done'') (calls_of assistantMessage) of
           Some doneToolCall \<Rightarrow>
             (let (confirm, results, w1) = processToolCalls e [doneToolCall] [] (world st)
              in st\<lparr>history := appendResults results (history st),
                    world := w1,
                    finalResponse :=
                      (case results of
                         [] \<Rightarrow> generateFinalResponse assistantMessage
                       | r # _ \<Rightarrow> if result_output r \<noteq> [] then result_output r
                                  else generateFinalResponse assistantMessage),
                    loopComplete := True\<rparr>)
         | None \<Rightarrow>
             (let (requiresConfirmation, results, w1) =
                    processToolCalls e (calls_of assistantMessage) BREAKING_CHANGE_TOOLS (world st);
                  (approved, w2) =
                    (if requiresConfirmation then showWarningMessage e w1 else (True, w1))
              in if \<not> approved
                 then caught ''User denied permission for the assistant to make changes'' (st\<lparr>world := w2\<rparr>)
                 else
                   (let st2 = st\<lparr>history := appendResults results (history st), world := w2\<rparr>
                    in case List.find (\<lambda>r. \<not> success r) results of
                         None \<Rightarrow> st2
                       | Some failedToolCall \<Rightarrow>
                           st2\<lparr>lastError := Some (''Tool execution failed: '' @ result_output failedToolCall)\<rparr>))))"

text \<open>What \<^verbatim>\<open>response.choices[0].message\<close> throws when there is no choice.\<close>

definition noChoiceError :: string where
  "noChoiceError = ''Cannot read properties of undefined (reading 'message')''"

definition iteration :: "('a, 'w) env \<Rightarrow> 'w loop_state \<Rightarrow> 'w loop_state" where
  "iteration e st =
     (let (messages, h1, w1) = prepareRequest e st;
          (response, w2) = createChatCompletion e messages True w1;
          st1 = st\<lparr>history := h1, world := w2\<rparr>
      in case (case response of Inl msg \<Rightarrow> Inl msg
                               | Inr None \<Rightarrow> Inl noChoiceError
                               | Inr (Some m) \<Rightarrow> Inr m) of
           Inl msg \<Rightarrow>
             if isValidationError msg then
               st1\<lparr>history := clearConversationHistory (fst (sanitizeToolMessages h1)),
                    forceExitLoop := True, loopComplete := True, finalResponse := apiResetMessage\<rparr>
             else caught msg st1
         | Inr assistantMessage \<Rightarrow>
             handleAssistantMessage e assistantMessage
               (st1\<lparr>history := addToConversationHistory assistantMessage h1\<rparr>))"

function agentLoop :: "('a, 'w) env \<Rightarrow> nat \<Rightarrow> 'w loop_state \<Rightarrow> nat \<times> 'w loop_state" where
  "agentLoop e iterations st =
     (if \<not> loopComplete st \<and> \<not> forceExitLoop st \<and> iterations < MAX_ITERATIONS
      then agentLoop e (iterations + 1) (iteration e st)
      else (iterations, st))"
  by pat_completeness auto
termination
  by (relation "measure (\<lambda>(e, iterations, st). MAX_ITERATIONS - iterations)") auto

declare agentLoop.simps [simp del]

definition exceededMessage :: "string option \<Rightarrow> string" where
  "exceededMessage err =
     ''I'm sorry, but I encountered an issue while processing your request. '' @
     (case err of
        Some msg \<Rightarrow> ''Error: '' @ msg
      | None \<Rightarrow> ''Please try again with a clearer or simpler query.'')"

definition isOpenAIError :: "string \<Rightarrow> bool" where
  "isOpenAIError msg =
     (str_includes msg ''OPENAI_API_ERROR'' \<or>
      str_includes msg ''400 Invalid parameter'' \<or>
      str_includes msg ''messages with role 'tool' must be a response'' \<or>
      str_includes msg ''invalid_request_error'')"

definition criticalResetMessage :: string where
  "criticalResetMessage =
     ''I encountered an issue while processing your request. The conversation has been reset to prevent further errors. Please try your question again.''"

datatype loop_result = Returned string | Thrown string

text \<open>The state in which the \<^verbatim>\<open>while\<close> loop starts: the query has been stored.\<close>

definition initialState :: "string \<Rightarrow> message list \<Rightarrow> 'w \<Rightarrow> 'w loop_state" where
  "initialState query h w =
     \<lparr>history = addToConversationHistory (userMessage query) h, lastError = None,
      loopComplete = False, forceExitLoop = False, finalResponse = [], world = w\<rparr>"

text \<open>\<^verbatim>\<open>executeAgentLoop(query)\<close> on a store holding \<open>h\<close>: what the call returns or throws, the
  stored history and the world afterwards.  The only \<^verbatim>\<open>throw\<close> outside the iteration's
  \<^verbatim>\<open>try\<close> is the failed key validation; its \<^verbatim>\<open>Error\<close> has the name \<^verbatim>\<open>Error\<close>.\<close>

definition executeAgentLoop ::
  "('a, 'w) env \<Rightarrow> string \<Rightarrow> message list \<Rightarrow> 'w \<Rightarrow> loop_result \<times> message list \<times> 'w" where
  "executeAgentLoop e query h w =
     (let (valid, validationMessage) = validateApiKey e in
      if \<not> valid then
        (let msg = ''OpenAI API key validation failed: '' @ validationMessage in
         if isOpenAIError msg then
           (Returned criticalResetMessage,
            addToConversationHistory
              (systemMessage ''The conversation has been reset due to an API error.'')
              (clearConversationHistory (fst (sanitizeToolMessages h))),
            w)
         else (Thrown msg, h, w))
      else
        (let (iterations, st) = agentLoop e 0 (initialState query h w)
         in (Returned (if \<not> loopComplete st then exceededMessage (lastError st) else finalResponse st),
             history st, world st)))"

section \<open>Auxiliary definitions for the proofs\<close>

text \<open>Sample messages for the concrete instances below.\<close>

definition sampleUser :: message where
  "sampleUser = \<lparr>role = User, content = Some ''hi'', tool_calls = None, tool_call_id = None\<rparr>"

definition sampleCall :: "string \<Rightarrow> string \<Rightarrow> tool_call" where
  "sampleCall i n = \<lparr>tc_id = i, fn_name = n, fn_arguments = ''{}''\<rparr>"

definition sampleAssistant :: "tool_call list \<Rightarrow> message" where
  "sampleAssistant cs = \<lparr>role = Assistant, content = None, tool_calls = Some cs, tool_call_id = None\<rparr>"

definition sampleTool :: "string \<Rightarrow> message" where
  "sampleTool i = \<lparr>role = Tool, content = Some ''out'', tool_calls = None, tool_call_id = Some i\<rparr>"

definition sampleExchange :: "string \<Rightarrow> message list" where
  "sampleExchange i = [sampleUser, sampleAssistant [sampleCall i ''list_dir''], sampleTool i]"

definition sampleTranscript :: "message list" where
  "sampleTranscript =
     sampleUser # sampleExchange ''a'' @ sampleExchange ''b'' @ sampleExchange ''c'' @ [sampleUser]"

text \<open>
  A sample environment.  The world is the number of chat completions requested so far and
  the names of the tools run so far; the model's replies are scripted (a request past the
  script fails with a network error); every tool behaves as \<open>behaviour\<close> says; the parsed
  arguments are the argument text, and only the empty text fails to parse; the user
  answers the prompt with \<open>approve\<close>.
\<close>

definition scriptedEnv ::
  "(string + message option) list \<Rightarrow> (string \<Rightarrow> tool_outcome) \<Rightarrow> bool \<Rightarrow> (string, nat \<times> string list) env" where
  "scriptedEnv script behaviour approve =
     \<lparr>validateApiKey = (True, ''API key is configured''),
      createChatCompletion =
        (\<lambda>msgs tools w. (if fst w < length script then script ! fst w else Inl ''network error'',
                          (fst w + 1, snd w))),
      jsonParse = (\<lambda>s. if s = [] then Inl ''Unexpected end of JSON input'' else Inr s),
      toolImpl = (\<lambda>name args w. (behaviour name, (fst w, snd w @ [name]))),
      showWarningMessage = (\<lambda>w. (approve, w)),
      systemPrompt = ''You are a coding assistant.'',
      projectPath = ''/tmp/proj'',
      matchFilePaths = (\<lambda>s. []),
      stringField = (\<lambda>args param. None),
      jsonStringify = (\<lambda>s. summary_content s),
      now = (\<lambda>w. 0)\<rparr>"

text \<open>Instances of the sample environment and inputs used below.\<close>

definition hangingEnv :: "(string, nat \<times> string list) env" where
  "hangingEnv = scriptedEnv [] (\<lambda>name. TimesOut) True"

definition throwingEnv :: "(string, nat \<times> string list) env" where
  "throwingEnv = scriptedEnv [] (\<lambda>name. Throws ''Error: boom'') True"

definition sampleCalls :: "tool_call list" where
  "sampleCalls =
     [sampleCall ''a'' ''list_dir'', \<lparr>tc_id = ''b'', fn_name = ''view_file'', fn_arguments = []\<rparr>]"

definition denyingEnv :: "(string, nat \<times> string list) env" where
  "denyingEnv =
     scriptedEnv [Inr (Some (sampleAssistant [sampleCall ''a'' ''create_file'']))]
                 (\<lambda>name. Returns ''File created successfully'') False"

definition strayResponse :: "message list" where
  "strayResponse =
     [sampleAssistant [sampleCall ''a'' ''list_dir''], sampleTool ''a'', sampleUser, sampleTool ''a''] @
     replicate 9 sampleUser"

definition orphanThenCall :: "message list" where
  "orphanThenCall = [sampleTool ''x'', sampleAssistant [sampleCall ''a'' ''list_dir''], sampleUser]"

definition orphanOnly :: "message list" where
  "orphanOnly = [sampleTool ''x'', sampleUser]"

definition unansweredCall :: "message list" where
  "unansweredCall = [sampleAssistant [sampleCall ''a'' ''list_dir''], sampleUser]"

definition separatedResponse :: "message list" where
  "separatedResponse = [sampleAssistant [sampleCall ''a'' ''list_dir''], sampleUser, sampleTool ''a'']"

definition partlyAnswered :: "message list" where
  "partlyAnswered =
     [sampleAssistant [sampleCall ''a'' ''list_dir'', sampleCall ''b'' ''view_file''], sampleTool ''a'']"

definition doneEnv :: "(string, nat \<times> string list) env" where
  "doneEnv =
     scriptedEnv [Inr (Some (sampleAssistant [sampleCall ''a'' ''create_file'', sampleCall ''b'' ''done'']))]
                 (\<lambda>name. Returns ''Task completed: x'') True"

definition rejectingEnv :: "(string, nat \<times> string list) env" where
  "rejectingEnv =
     scriptedEnv [Inl ''400 invalid_request_error: bad message sequence'']
                 (\<lambda>name. Returns ''ok'') True"

definition silentReply :: message where
  "silentReply = \<lparr>role = Assistant, content = None, tool_calls = None, tool_call_id = None\<rparr>"

definition silentEnv :: "(string, nat \<times> string list) env" where
  "silentEnv = scriptedEnv [Inr (Some silentReply)] (\<lambda>name. Returns ''ok'') True"

definition offlineEnv :: "(string, nat \<times> string list) env" where
  "offlineEnv = scriptedEnv [] (\<lambda>name. Returns ''ok'') True"

text \<open>The loop invariant behind the statement about the returned text: once the loop is
  complete, the final response is non-empty or the last stored message has neither content
  nor tool calls.\<close>

definition answered :: "'w loop_state \<Rightarrow> bool" where
  "answered st =
     (loopComplete st \<longrightarrow>
        finalResponse st \<noteq> [] \<or>
        (history st \<noteq> [] \<and> \<not> truthy (content (last (history st))) \<and>
         calls_of (last (history st)) = []))"


section \<open>Truncation\<close>

lemma scan_cases:
  "scan h i s = s \<or>
   (0 < scan h i s \<and> scan h i s \<le> length h - minimumToKeep \<and>
    role (h ! (scan h i s - 1)) = User \<and> \<not> blocked h (scan h i s - 1))"
proof (induction h i s rule: scan.induct)
  case (1 h i s)
  show ?case
  proof (cases "i < length h - minimumToKeep")
    case False
    then show ?thesis by (subst scan.simps) simp
  next
    case inrange: True
    show ?thesis
    proof (cases "role (h ! i) = User")
      case user: True
      show ?thesis
      proof (cases "blocked h i")
        case True
        with inrange user show ?thesis by (subst scan.simps) simp
      next
        case free: False
        show ?thesis
        proof (cases "i + 1 \<ge> length h - maxHistoryLength")
          case True
          with inrange user free have "scan h i s = i + 1" by (subst scan.simps) simp
          with inrange user free show ?thesis by simp
        next
          case False
          with inrange user free have eq: "scan h i s = scan h (i + 1) (i + 1)"
            by (subst scan.simps) simp
          from "1.IH"(1) [OF inrange user free False] inrange user free
          show ?thesis unfolding eq by auto
        qed
      qed
    next
      case other: False
      show ?thesis
      proof (cases "s \<ge> length h - maxHistoryLength")
        case True
        with inrange other show ?thesis by (subst scan.simps) simp
      next
        case False
        with inrange other have eq: "scan h i s = scan h (i + 1) s"
          by (subst scan.simps) simp
        from "1.IH"(2) [OF inrange other False] show ?thesis unfolding eq .
      qed
    qed
  qed
qed

lemma scan_all_blocked:
  "(\<forall>i'. i \<le> i' \<and> i' < length h - minimumToKeep \<and> role (h ! i') = User \<longrightarrow> blocked h i') \<Longrightarrow>
   s < length h - maxHistoryLength \<Longrightarrow> scan h i s = s"
proof (induction h i s rule: scan.induct)
  case (1 h i s)
  show ?case
  proof (cases "i < length h - minimumToKeep")
    case False
    then show ?thesis by (subst scan.simps) simp
  next
    case inrange: True
    show ?thesis
    proof (cases "role (h ! i) = User")
      case True
      with inrange "1.prems"(1) have "blocked h i" by simp
      with inrange True show ?thesis by (subst scan.simps) simp
    next
      case other: False
      from "1.prems"(2) have notyet: "\<not> s \<ge> length h - maxHistoryLength" by simp
      with inrange other have eq: "scan h i s = scan h (i + 1) s"
        by (subst scan.simps) simp
      from "1.prems"(1) have "\<forall>i'. i + 1 \<le> i' \<and> i' < length h - minimumToKeep \<and> role (h ! i') = User \<longrightarrow> blocked h i'"
        by simp
      from "1.IH"(2) [OF inrange other notyet this "1.prems"(2)] show ?thesis unfolding eq .
    qed
  qed
qed

lemma truncate_short: "length h \<le> maxHistoryLength \<Longrightarrow> safelyTruncateConversationHistory h = h"
  by (simp add: safelyTruncateConversationHistory_def)

lemma truncate_cut:
  "\<exists>p. safelyTruncateConversationHistory h = drop p h \<and>
       (p = 0 \<or> p + minimumToKeep \<le> length h \<and> role (h ! (p - 1)) = User \<and> \<not> blocked h (p - 1))"
proof (cases "length h \<le> maxHistoryLength")
  case True
  then have "safelyTruncateConversationHistory h = drop 0 h" by (simp add: truncate_short)
  then show ?thesis by blast
next
  case False
  then have long: "minimumToKeep < length h"
    by (simp add: minimumToKeep_def maxHistoryLength_def)
  from scan_cases [of h 0 0] show ?thesis
  proof
    assume "scan h 0 0 = 0"
    with False have "safelyTruncateConversationHistory h = drop 0 h"
      by (simp add: safelyTruncateConversationHistory_def)
    then show ?thesis by blast
  next
    assume a: "0 < scan h 0 0 \<and> scan h 0 0 \<le> length h - minimumToKeep \<and>
      role (h ! (scan h 0 0 - 1)) = User \<and> \<not> blocked h (scan h 0 0 - 1)"
    with False have "safelyTruncateConversationHistory h = drop (scan h 0 0) h"
      by (simp add: safelyTruncateConversationHistory_def)
    moreover from a long have "scan h 0 0 + minimumToKeep \<le> length h" by linarith
    ultimately show ?thesis using a by blast
  qed
qed

text \<open>What the truncation does on every transcript: the result is the transcript without
  its first \<open>p\<close> messages, where \<open>p\<close> is 0 or the message just before the cut is a user
  message that the scan did not reject, and at least \<^verbatim>\<open>minimumToKeep\<close> messages remain; a
  transcript at or under the maximum length is left as it is, so a second truncation of
  a result at or under the maximum changes nothing; and when the scan rejects every user
  message of the scanned prefix, the over-length transcript is left as it is.\<close>

lemma truncation_cut_shape:
  "(\<exists>p. safelyTruncateConversationHistory h = drop p h \<and>
        (p = 0 \<or> p + minimumToKeep \<le> length h \<and> role (h ! (p - 1)) = User \<and> \<not> blocked h (p - 1))) \<and>
   (length h \<le> maxHistoryLength \<longrightarrow> safelyTruncateConversationHistory h = h) \<and>
   (length (safelyTruncateConversationHistory h) \<le> maxHistoryLength \<longrightarrow>
      safelyTruncateConversationHistory (safelyTruncateConversationHistory h) =
      safelyTruncateConversationHistory h) \<and>
   (maxHistoryLength < length h \<and>
    (\<forall>i < length h - minimumToKeep. role (h ! i) = User \<longrightarrow> blocked h i) \<longrightarrow>
      safelyTruncateConversationHistory h = h)"
proof (intro conjI impI)
  show "\<exists>p. safelyTruncateConversationHistory h = drop p h \<and>
        (p = 0 \<or> p + minimumToKeep \<le> length h \<and> role (h ! (p - 1)) = User \<and> \<not> blocked h (p - 1))"
    by (rule truncate_cut)
next
  assume "length h \<le> maxHistoryLength"
  then show "safelyTruncateConversationHistory h = h" by (rule truncate_short)
next
  assume "length (safelyTruncateConversationHistory h) \<le> maxHistoryLength"
  then show "safelyTruncateConversationHistory (safelyTruncateConversationHistory h) =
            safelyTruncateConversationHistory h" by (rule truncate_short)
next
  assume a: "maxHistoryLength < length h \<and>
          (\<forall>i < length h - minimumToKeep. role (h ! i) = User \<longrightarrow> blocked h i)"
  then have "scan h 0 0 = 0"
    by (intro scan_all_blocked) auto
  with a show "safelyTruncateConversationHistory h = h"
    by (simp add: safelyTruncateConversationHistory_def)
qed

text \<open>The transcript \<open>strayResponse\<close> satisfies the pairing invariant: its one tool call is
  answered by exactly one tool message in the run right after it, and each of its two tool
  messages matches exactly one earlier call.  Its truncation does not.\<close>

lemma strayResponse_invariant:
  "pairing_invariant strayResponse \<and>
   \<not> pairing_invariant (safelyTruncateConversationHistory strayResponse)"
  by code_simp


section \<open>Tool call processing\<close>

lemma show_30: "show_nat 30 = ''30''"
  by code_simp

lemma processEach_Cons:
  "processEach e (c # cs) w =
     (fst (processToolCall e c w) # fst (processEach e cs (snd (processToolCall e c w))),
      snd (processEach e cs (snd (processToolCall e c w))))"
  by (simp add: case_prod_beta)

lemma processToolCall_id: "result_id (fst (processToolCall e c w)) = tc_id c"
  by (simp add: processToolCall_def split: sum.splits prod.splits)

lemma processToolCall_parse_failure:
  "jsonParse e (fn_arguments c) = Inl msg \<Longrightarrow>
   processToolCall e c w = (\<lparr>result_id = tc_id c, result_output = ''Error: '' @ msg, success = False\<rparr>, w)"
  by (simp add: processToolCall_def)

lemma processToolCall_executed:
  "jsonParse e (fn_arguments c) = Inr args \<Longrightarrow>
   processToolCall e c w =
     (\<lparr>result_id = tc_id c,
       result_output =
         (case fst (executeTool e (fn_name c) args w) of
            Returns s \<Rightarrow> s
          | Throws err \<Rightarrow> ''Error executing tool: '' @ err
          | TimesOut \<Rightarrow> ''Tool execution timed out after 30 seconds''),
       success = True\<rparr>,
      snd (executeTool e (fn_name c) args w))"
  by (simp add: processToolCall_def executeToolWithTimeout_def executeWithTimeout_def show_30
           split: prod.splits tool_outcome.splits)

lemma processEach_length: "length (fst (processEach e cs w)) = length cs"
  by (induction cs arbitrary: w) (simp_all add: processEach_Cons del: processEach.simps(2))

lemma processEach_nth:
  "i < length cs \<Longrightarrow>
   fst (processEach e cs w) ! i = fst (processToolCall e (cs ! i) (snd (processEach e (take i cs) w)))"
proof (induction cs arbitrary: w i)
  case Nil
  then show ?case by simp
next
  case (Cons c cs)
  show ?case
  proof (cases i)
    case 0
    then show ?thesis by (simp add: processEach_Cons del: processEach.simps(2))
  next
    case (Suc k)
    with Cons.prems have "k < length cs" by simp
    from Cons.IH [OF this] Suc show ?thesis by (simp add: processEach_Cons del: processEach.simps(2))
  qed
qed

lemma processToolCalls_confirmation: "fst (processToolCalls e toolCalls names w) = False"
  by (simp add: processToolCalls_def case_prod_beta)

lemma processToolCalls_eq:
  "processToolCalls e toolCalls names w =
     (False, fst (processEach e toolCalls w), snd (processEach e toolCalls w))"
  by (simp add: processToolCalls_def case_prod_beta)

lemma processEach_single:
  "processEach e [c] w = ([fst (processToolCall e c w)], snd (processToolCall e c w))"
  by (simp add: case_prod_beta)

text \<open>
  C1 (as amended).  \<^verbatim>\<open>processToolCalls\<close> returns one result per call, in call order, with
  the call's id.  A call whose argument text fails to parse gets \<^verbatim>\<open>success: false\<close> and
  the output \<^verbatim>\<open>"Error: <message>"\<close>.  A call whose arguments parse gets \<^verbatim>\<open>success: true\<close>
  and the executor's text: the tool's output when it returns,
  \<^verbatim>\<open>"Error executing tool: <error>"\<close> when it throws, and
  \<^verbatim>\<open>"Tool execution timed out after 30 seconds"\<close> when the timer fires first.
\<close>

theorem processToolCalls_results:
  "length (fst (snd (processToolCalls e toolCalls names w))) = length toolCalls \<and>
   (\<forall>i < length toolCalls.
      let toolCall = toolCalls ! i;
          r = fst (snd (processToolCalls e toolCalls names w)) ! i;
          wi = snd (processEach e (take i toolCalls) w)
      in result_id r = tc_id toolCall \<and>
         (case jsonParse e (fn_arguments toolCall) of
            Inl msg \<Rightarrow> \<not> success r \<and> result_output r = ''Error: '' @ msg
          | Inr args \<Rightarrow>
              success r \<and>
              result_output r =
                (case fst (executeTool e (fn_name toolCall) args wi) of
                   Returns s \<Rightarrow> s
                 | Throws err \<Rightarrow> ''Error executing tool: '' @ err
                 | TimesOut \<Rightarrow> ''Tool execution timed out after 30 seconds'')))"
proof -
  have res: "fst (snd (processToolCalls e toolCalls names w)) = fst (processEach e toolCalls w)"
    by (simp add: processToolCalls_def split: prod.splits)
  show ?thesis
    unfolding res Let_def
  proof (intro conjI allI impI)
    show "length (fst (processEach e toolCalls w)) = length toolCalls"
      by (rule processEach_length)
  next
    fix i assume i: "i < length toolCalls"
    show "result_id (fst (processEach e toolCalls w) ! i) = tc_id (toolCalls ! i)"
      by (simp add: processEach_nth [OF i] processToolCall_id)
  next
    fix i assume i: "i < length toolCalls"
    show "case jsonParse e (fn_arguments (toolCalls ! i)) of
            Inl msg \<Rightarrow> \<not> success (fst (processEach e toolCalls w) ! i) \<and>
                       result_output (fst (processEach e toolCalls w) ! i) = ''Error: '' @ msg
          | Inr args \<Rightarrow>
              success (fst (processEach e toolCalls w) ! i) \<and>
              result_output (fst (processEach e toolCalls w) ! i) =
                (case fst (executeTool e (fn_name (toolCalls ! i)) args (snd (processEach e (take i toolCalls) w))) of
                   Returns s \<Rightarrow> s
                 | Throws err \<Rightarrow> ''Error executing tool: '' @ err
                 | TimesOut \<Rightarrow> ''Tool execution timed out after 30 seconds'')"
    proof (cases "jsonParse e (fn_arguments (toolCalls ! i))")
      case (Inl msg)
      then show ?thesis
        by (simp add: processEach_nth [OF i] processToolCall_parse_failure)
    next
      case (Inr args)
      then show ?thesis
        by (simp add: processEach_nth [OF i] processToolCall_executed)
    qed
  qed
qed

theorem processToolCalls_results_witness:
  "success (fst (snd (processToolCalls hangingEnv sampleCalls [] (0, []))) ! 0) \<and>
   result_output (fst (snd (processToolCalls hangingEnv sampleCalls [] (0, []))) ! 0) =
     ''Tool execution timed out after 30 seconds'' \<and>
   \<not> success (fst (snd (processToolCalls hangingEnv sampleCalls [] (0, []))) ! 1) \<and>
   result_output (fst (snd (processToolCalls hangingEnv sampleCalls [] (0, []))) ! 1) =
     ''Error: Unexpected end of JSON input''"
proof -
  have parse0: "jsonParse hangingEnv (fn_arguments (sampleCalls ! 0)) = Inr ''{}''"
    by (simp add: hangingEnv_def scriptedEnv_def sampleCalls_def sampleCall_def)
  have parse1: "jsonParse hangingEnv (fn_arguments (sampleCalls ! 1)) = Inl ''Unexpected end of JSON input''"
    by (simp add: hangingEnv_def scriptedEnv_def sampleCalls_def sampleCall_def)
  have run0: "fst (executeTool hangingEnv (fn_name (sampleCalls ! 0)) ''{}''
                     (snd (processEach hangingEnv (take 0 sampleCalls) (0, [])))) = TimesOut"
    by (simp add: hangingEnv_def scriptedEnv_def sampleCalls_def sampleCall_def executeTool_def
                  dispatchedTools_def)
  have len: "length sampleCalls = 2"
    by (simp add: sampleCalls_def)
  from processToolCalls_results [of hangingEnv sampleCalls "[]" "(0, [])"]
  have all: "\<forall>i < length sampleCalls.
      let toolCall = sampleCalls ! i;
          r = fst (snd (processToolCalls hangingEnv sampleCalls [] (0, []))) ! i;
          wi = snd (processEach hangingEnv (take i sampleCalls) (0, []))
      in result_id r = tc_id toolCall \<and>
         (case jsonParse hangingEnv (fn_arguments toolCall) of
            Inl msg \<Rightarrow> \<not> success r \<and> result_output r = ''Error: '' @ msg
          | Inr args \<Rightarrow>
              success r \<and>
              result_output r =
                (case fst (executeTool hangingEnv (fn_name toolCall) args wi) of
                   Returns s \<Rightarrow> s
                 | Throws err \<Rightarrow> ''Error executing tool: '' @ err
                 | TimesOut \<Rightarrow> ''Tool execution timed out after 30 seconds''))"
    by (rule conjunct2)
  from all len have
    "success (fst (snd (processToolCalls hangingEnv sampleCalls [] (0, []))) ! 0) \<and>
     result_output (fst (snd (processToolCalls hangingEnv sampleCalls [] (0, []))) ! 0) =
       ''Tool execution timed out after 30 seconds''"
    using parse0 run0 by (auto simp: Let_def dest!: spec [where x = 0])
  moreover from all len have
    "\<not> success (fst (snd (processToolCalls hangingEnv sampleCalls [] (0, []))) ! 1) \<and>
     result_output (fst (snd (processToolCalls hangingEnv sampleCalls [] (0, []))) ! 1) =
       ''Error: Unexpected end of JSON input''"
    using parse1 by (auto simp: Let_def dest!: spec [where x = 1])
  ultimately show ?thesis by blast
qed

text \<open>A tool that throws: the result is a success whose output is the executor's error
  text.\<close>

theorem thrown_tool_error_counterexample:
  "fst (snd (processToolCalls throwingEnv [sampleCall ''a'' ''list_dir''] [] (0, []))) =
     [\<lparr>result_id = ''a'', result_output = ''Error executing tool: Error: boom'', success = True\<rparr>]"
  by code_simp

section \<open>Validation of the transcript\<close>

text \<open>Each single fault is repaired: an orphaned response is removed, an unanswered call
  gets the synthesized response right after its assistant message, and a response
  separated from its call by a user message is removed and synthesized.\<close>

lemma validate_repairs_single_faults:
  "validateAndSanitizeConversationHistory orphanOnly = [sampleUser] \<and>
   validateAndSanitizeConversationHistory unansweredCall =
     [sampleAssistant [sampleCall ''a'' ''list_dir''], dummyResponse ''a'', sampleUser] \<and>
   validateAndSanitizeConversationHistory separatedResponse =
     [sampleAssistant [sampleCall ''a'' ''list_dir''], dummyResponse ''a'', sampleUser] \<and>
   pairing_invariant (validateAndSanitizeConversationHistory orphanOnly) \<and>
   pairing_invariant (validateAndSanitizeConversationHistory unansweredCall) \<and>
   pairing_invariant (validateAndSanitizeConversationHistory separatedResponse)"
  by code_simp

text \<open>
  C3 (the code at the failing input).  The transcript is an orphaned tool response, an
  assistant message with one unanswered tool call, and a user message.  The first pass
  marks index 0 for removal, the second pass records that the assistant message at index 1
  needs a response; after the removal index 1 holds the user message, so the fourth pass
  inserts nothing: the tool call is left without a response.

  \<^verbatim>\<open>sanitizeToolMessages\<close> on an assistant message with two tool calls of which only the first
  is answered: the assistant message is removed as an orphaned call, its answered call's
  response stays behind and now matches no call.
\<close>

theorem validate_leaves_unanswered_call:
  "validateAndSanitizeConversationHistory orphanThenCall =
     [sampleAssistant [sampleCall ''a'' ''list_dir''], sampleUser] \<and>
   \<not> callHasOneResponse (validateAndSanitizeConversationHistory orphanThenCall) 0
        (sampleCall ''a'' ''list_dir'') \<and>
   sanitizeToolMessages partlyAnswered = ([sampleTool ''a''], 1) \<and>
   \<not> responseMatchesOneCall (fst (sanitizeToolMessages partlyAnswered)) 0"
  by code_simp

section \<open>The agent loop\<close>

lemma find_Some_nonempty: "List.find P xs = Some x \<Longrightarrow> xs \<noteq> []"
  by (cases xs) simp_all

lemma handle_plain:
  "calls_of am = [] \<Longrightarrow>
   handleAssistantMessage e am st =
     st\<lparr>finalResponse := generateFinalResponse am, loopComplete := True\<rparr>"
  by (simp add: handleAssistantMessage_def)

lemma handle_done:
  assumes "List.find (\<lambda>toolCall. fn_name toolCall = ''done'') (calls_of am) = Some d"
  shows "handleAssistantMessage e am st =
     st\<lparr>history := addToConversationHistory (toolMessage (fst (processToolCall e d (world st)))) (history st),
        world := snd (processToolCall e d (world st)),
        finalResponse :=
          (if result_output (fst (processToolCall e d (world st))) \<noteq> []
           then result_output (fst (processToolCall e d (world st)))
           else generateFinalResponse am),
        loopComplete := True\<rparr>"
proof -
  from assms have "calls_of am \<noteq> []" by (rule find_Some_nonempty)
  with assms show ?thesis
    by (simp add: handleAssistantMessage_def processToolCalls_eq processEach_single appendResults_def
             del: processEach.simps)
qed

lemma handle_tools:
  assumes "calls_of am \<noteq> []"
    and "List.find (\<lambda>toolCall. fn_name toolCall = ''done'') (calls_of am) = None"
  shows "handleAssistantMessage e am st =
     st\<lparr>history := appendResults (fst (processEach e (calls_of am) (world st))) (history st),
        world := snd (processEach e (calls_of am) (world st)),
        lastError :=
          (case List.find (\<lambda>r. \<not> success r) (fst (processEach e (calls_of am) (world st))) of
             None \<Rightarrow> lastError st
           | Some failedToolCall \<Rightarrow> Some (''Tool execution failed: '' @ result_output failedToolCall))\<rparr>"
  using assms
  by (simp add: handleAssistantMessage_def processToolCalls_eq caught_def case_prod_beta Let_def
           split: option.splits)

lemma iteration_reply:
  assumes "prepareRequest e st = (messages, h1, w1)"
    and "createChatCompletion e messages True w1 = (Inr (Some am), w2)"
  shows "iteration e st =
     handleAssistantMessage e am (st\<lparr>world := w2, history := addToConversationHistory am h1\<rparr>)"
  using assms by (simp add: iteration_def)

lemma iteration_failure:
  assumes "prepareRequest e st = (messages, h1, w1)"
    and "createChatCompletion e messages True w1 = (r, w2)"
    and "r = Inl msg \<or> r = Inr None \<and> msg = noChoiceError"
  shows "iteration e st =
     (if isValidationError msg
      then st\<lparr>history := [], world := w2, forceExitLoop := True, loopComplete := True,
              finalResponse := apiResetMessage\<rparr>
      else st\<lparr>history := h1, world := w2, lastError := Some msg\<rparr>)"
  using assms by (auto simp: iteration_def caught_def clearConversationHistory_def)

lemma agentLoop_stop:
  "loopComplete st \<or> forceExitLoop st \<or> MAX_ITERATIONS \<le> n \<Longrightarrow> agentLoop e n st = (n, st)"
  by (subst agentLoop.simps) auto

lemma agentLoop_step:
  "\<not> loopComplete st \<Longrightarrow> \<not> forceExitLoop st \<Longrightarrow> n < MAX_ITERATIONS \<Longrightarrow>
   agentLoop e n st = agentLoop e (n + 1) (iteration e st)"
  by (subst agentLoop.simps) simp

lemma agentLoop_bound: "n \<le> MAX_ITERATIONS \<Longrightarrow> fst (agentLoop e n st) \<le> MAX_ITERATIONS"
proof (induction e n st rule: agentLoop.induct)
  case (1 e iterations st)
  show ?case
  proof (cases "\<not> loopComplete st \<and> \<not> forceExitLoop st \<and> iterations < MAX_ITERATIONS")
    case True
    then have "agentLoop e iterations st = agentLoop e (iterations + 1) (iteration e st)"
      by (simp add: agentLoop_step)
    with "1.IH" [OF True] True show ?thesis by simp
  next
    case False
    then have "agentLoop e iterations st = (iterations, st)"
      by (intro agentLoop_stop) auto
    with "1.prems" show ?thesis by simp
  qed
qed

lemma agentLoop_final:
  "n \<le> MAX_ITERATIONS \<Longrightarrow>
   loopComplete (snd (agentLoop e n st)) \<or> forceExitLoop (snd (agentLoop e n st)) \<or>
   fst (agentLoop e n st) = MAX_ITERATIONS"
proof (induction e n st rule: agentLoop.induct)
  case (1 e iterations st)
  show ?case
  proof (cases "\<not> loopComplete st \<and> \<not> forceExitLoop st \<and> iterations < MAX_ITERATIONS")
    case True
    then have "agentLoop e iterations st = agentLoop e (iterations + 1) (iteration e st)"
      by (simp add: agentLoop_step)
    with "1.IH" [OF True] True show ?thesis by simp
  next
    case False
    then have "agentLoop e iterations st = (iterations, st)"
      by (intro agentLoop_stop) auto
    with "1.prems" False show ?thesis by auto
  qed
qed

lemma scan_le: "s \<le> length h - minimumToKeep \<Longrightarrow> scan h i s \<le> length h - minimumToKeep"
proof (induction h i s rule: scan.induct)
  case (1 h i s)
  show ?case
  proof (cases "i < length h - minimumToKeep")
    case False
    with "1.prems" show ?thesis by (subst scan.simps) simp
  next
    case inrange: True
    show ?thesis
    proof (cases "role (h ! i) = User")
      case user: True
      show ?thesis
      proof (cases "blocked h i")
        case True
        with inrange user "1.prems" show ?thesis by (subst scan.simps) simp
      next
        case free: False
        show ?thesis
        proof (cases "i + 1 \<ge> length h - maxHistoryLength")
          case True
          with inrange user free show ?thesis by (subst scan.simps) simp
        next
          case False
          from inrange have "i + 1 \<le> length h - minimumToKeep" by simp
          from "1.IH"(1) [OF inrange user free False this] inrange user free False
          show ?thesis by (subst scan.simps) simp
        qed
      qed
    next
      case other: False
      show ?thesis
      proof (cases "s \<ge> length h - maxHistoryLength")
        case True
        with inrange other "1.prems" show ?thesis by (subst scan.simps) simp
      next
        case False
        from "1.IH"(2) [OF inrange other False "1.prems"] inrange other False
        show ?thesis by (subst scan.simps) simp
      qed
    qed
  qed
qed

lemma truncate_keeps_last:
  assumes "h \<noteq> []"
  shows "safelyTruncateConversationHistory h \<noteq> [] \<and> last (safelyTruncateConversationHistory h) = last h"
proof (cases "length h \<le> maxHistoryLength")
  case True
  with assms show ?thesis by (simp add: safelyTruncateConversationHistory_def)
next
  case False
  have "scan h 0 0 \<le> length h - minimumToKeep" by (rule scan_le) simp
  with False have "scan h 0 0 < length h"
    by (simp add: minimumToKeep_def maxHistoryLength_def)
  with False assms show ?thesis
    by (simp add: safelyTruncateConversationHistory_def Let_def)
qed

lemma add_last:
  "addToConversationHistory m h \<noteq> [] \<and> last (addToConversationHistory m h) = m"
  using truncate_keeps_last [of "h @ [m]"] by (simp add: addToConversationHistory_def)

lemma generateFinalResponse_nonempty:
  "truthy (content am) \<or> calls_of am \<noteq> [] \<Longrightarrow> generateFinalResponse am \<noteq> []"
  by (cases "content am") (auto simp: generateFinalResponse_def)

lemma iteration_answered:
  assumes "\<not> loopComplete st"
  shows "answered (iteration e st)"
proof -
  obtain messages h1 w1 where prep: "prepareRequest e st = (messages, h1, w1)"
    by (cases "prepareRequest e st") auto
  obtain r w2 where resp: "createChatCompletion e messages True w1 = (r, w2)"
    by (cases "createChatCompletion e messages True w1") auto
  consider (err) msg where "r = Inl msg \<or> r = Inr None \<and> msg = noChoiceError"
    | (reply) am where "r = Inr (Some am)"
  proof (cases r)
    case (Inl a)
    then show ?thesis using that(1) [of a] by simp
  next
    case (Inr b)
    then show ?thesis using that(1) [of noChoiceError] that(2) by (cases b) simp_all
  qed
  then show ?thesis
  proof cases
    case err
    from iteration_failure [OF prep resp err] assms show ?thesis
      by (simp add: answered_def apiResetMessage_def)
  next
    case reply
    let ?st = "st\<lparr>world := w2, history := addToConversationHistory am h1\<rparr>"
    from prep resp reply have it: "iteration e st = handleAssistantMessage e am ?st"
      by (simp add: iteration_reply)
    show ?thesis
    proof (cases "calls_of am = []")
      case True
      show ?thesis
      proof (cases "truthy (content am)")
        case True
        then have "generateFinalResponse am \<noteq> []"
          by (simp add: generateFinalResponse_nonempty)
        with \<open>calls_of am = []\<close> show ?thesis
          by (simp add: it handle_plain answered_def)
      next
        case False
        with \<open>calls_of am = []\<close> add_last [of am h1] show ?thesis
          by (simp add: it handle_plain answered_def)
      qed
    next
      case calls: False
      then have gen: "generateFinalResponse am \<noteq> []"
        by (simp add: generateFinalResponse_nonempty)
      show ?thesis
      proof (cases "List.find (\<lambda>toolCall. fn_name toolCall = ''done'') (calls_of am)")
        case None
        with calls assms show ?thesis
          by (simp add: it handle_tools answered_def)
      next
        case (Some d)
        with gen show ?thesis
          by (simp add: it handle_done answered_def)
      qed
    qed
  qed
qed

lemma agentLoop_answered: "answered st \<Longrightarrow> answered (snd (agentLoop e n st))"
proof (induction e n st rule: agentLoop.induct)
  case (1 e iterations st)
  show ?case
  proof (cases "\<not> loopComplete st \<and> \<not> forceExitLoop st \<and> iterations < MAX_ITERATIONS")
    case True
    then have eq: "agentLoop e iterations st = agentLoop e (iterations + 1) (iteration e st)"
      by (simp add: agentLoop_step)
    from True have "answered (iteration e st)" by (simp add: iteration_answered)
    from "1.IH" [OF True this] show ?thesis by (simp add: eq)
  next
    case False
    then have "agentLoop e iterations st = (iterations, st)"
      by (intro agentLoop_stop) auto
    with "1.prems" show ?thesis by simp
  qed
qed

lemma exceededMessage_nonempty: "exceededMessage err \<noteq> []"
  by (simp add: exceededMessage_def)

lemma iteration_flags:
  "forceExitLoop (iteration e st) \<Longrightarrow> forceExitLoop st \<or> loopComplete (iteration e st)"
proof -
  assume force: "forceExitLoop (iteration e st)"
  obtain messages h1 w1 where prep: "prepareRequest e st = (messages, h1, w1)"
    by (cases "prepareRequest e st") auto
  obtain r w2 where resp: "createChatCompletion e messages True w1 = (r, w2)"
    by (cases "createChatCompletion e messages True w1") auto
  consider (err) msg where "r = Inl msg \<or> r = Inr None \<and> msg = noChoiceError"
    | (reply) am where "r = Inr (Some am)"
  proof (cases r)
    case (Inl a)
    then show ?thesis using that(1) [of a] by simp
  next
    case (Inr b)
    then show ?thesis using that(1) [of noChoiceError] that(2) by (cases b) simp_all
  qed
  then show ?thesis
  proof cases
    case err
    from iteration_failure [OF prep resp err] force show ?thesis
      by (simp split: if_splits)
  next
    case reply
    let ?st = "st\<lparr>world := w2, history := addToConversationHistory am h1\<rparr>"
    from prep resp reply have it: "iteration e st = handleAssistantMessage e am ?st"
      by (simp add: iteration_reply)
    show ?thesis
    proof (cases "calls_of am = []")
      case True
      then show ?thesis by (simp add: it handle_plain)
    next
      case calls: False
      show ?thesis
      proof (cases "List.find (\<lambda>toolCall. fn_name toolCall = ''done'') (calls_of am)")
        case None
        with calls force show ?thesis
          by (simp add: it handle_tools)
      next
        case (Some d)
        then show ?thesis
          by (simp add: it handle_done)
      qed
    qed
  qed
qed

lemma agentLoop_force:
  "(forceExitLoop st \<longrightarrow> loopComplete st) \<Longrightarrow>
   (forceExitLoop (snd (agentLoop e n st)) \<longrightarrow> loopComplete (snd (agentLoop e n st)))"
proof (induction e n st rule: agentLoop.induct)
  case (1 e iterations st)
  show ?case
  proof (cases "\<not> loopComplete st \<and> \<not> forceExitLoop st \<and> iterations < MAX_ITERATIONS")
    case True
    then have eq: "agentLoop e iterations st = agentLoop e (iterations + 1) (iteration e st)"
      by (simp add: agentLoop_step)
    from True iteration_flags [of e st]
    have "forceExitLoop (iteration e st) \<longrightarrow> loopComplete (iteration e st)" by blast
    from "1.IH" [OF True this] show ?thesis by (simp add: eq)
  next
    case False
    then have "agentLoop e iterations st = (iterations, st)"
      by (intro agentLoop_stop) auto
    with "1.prems" show ?thesis by simp
  qed
qed

lemma agentLoop_unroll:
  "(\<forall>j < k. \<not> loopComplete ((iteration e ^^ j) st) \<and> \<not> forceExitLoop ((iteration e ^^ j) st)) \<Longrightarrow>
   n + k \<le> MAX_ITERATIONS \<Longrightarrow>
   agentLoop e n st = agentLoop e (n + k) ((iteration e ^^ k) st)"
proof (induction k)
  case 0
  then show ?case by simp
next
  case (Suc k)
  from Suc.prems have "agentLoop e n st = agentLoop e (n + k) ((iteration e ^^ k) st)"
    by (intro Suc.IH) simp_all
  moreover from Suc.prems have
    "agentLoop e (n + k) ((iteration e ^^ k) st) =
     agentLoop e (n + k + 1) (iteration e ((iteration e ^^ k) st))"
    by (intro agentLoop_step) simp_all
  ultimately show ?case by simp
qed

lemma executeAgentLoop_valid:
  "fst (validateApiKey e) \<Longrightarrow>
   executeAgentLoop e query h w =
     (Returned (if \<not> loopComplete (snd (agentLoop e 0 (initialState query h w)))
                then exceededMessage (lastError (snd (agentLoop e 0 (initialState query h w))))
                else finalResponse (snd (agentLoop e 0 (initialState query h w)))),
      history (snd (agentLoop e 0 (initialState query h w))),
      world (snd (agentLoop e 0 (initialState query h w))))"
  by (simp add: executeAgentLoop_def case_prod_beta)

text \<open>The loop completes in its iteration \<open>k + 1\<close>.\<close>

lemma executeAgentLoop_completes:
  assumes valid: "fst (validateApiKey e)"
    and k: "k < MAX_ITERATIONS"
    and running: "\<forall>j \<le> k. \<not> loopComplete ((iteration e ^^ j) (initialState query h w)) \<and>
                          \<not> forceExitLoop ((iteration e ^^ j) (initialState query h w))"
    and complete: "loopComplete (iteration e ((iteration e ^^ k) (initialState query h w)))"
  shows "executeAgentLoop e query h w =
           (Returned (finalResponse (iteration e ((iteration e ^^ k) (initialState query h w)))),
            history (iteration e ((iteration e ^^ k) (initialState query h w))),
            world (iteration e ((iteration e ^^ k) (initialState query h w)))) \<and>
         agentLoop e 0 (initialState query h w) =
           (k + 1, iteration e ((iteration e ^^ k) (initialState query h w)))"
proof -
  let ?st = "(iteration e ^^ k) (initialState query h w)"
  from running k have "agentLoop e 0 (initialState query h w) = agentLoop e (0 + k) ?st"
    by (intro agentLoop_unroll) simp_all
  also from running k have "\<dots> = agentLoop e (k + 1) (iteration e ?st)"
    by (simp add: agentLoop_step)
  also from complete have "\<dots> = (k + 1, iteration e ?st)"
    by (intro agentLoop_stop) simp
  finally have loop: "agentLoop e 0 (initialState query h w) = (k + 1, iteration e ?st)" .
  with complete show ?thesis
    by (simp add: executeAgentLoop_valid [OF valid])
qed

text \<open>Evaluation in the sample environment.\<close>

lemma first_state:
  "initialState q [] w =
     \<lparr>history = [userMessage q], lastError = None, loopComplete = False, forceExitLoop = False,
      finalResponse = [], world = w\<rparr>"
  by (simp add: initialState_def addToConversationHistory_def truncate_short maxHistoryLength_def)

lemma prepare_short:
  "length (history st) \<le> 2 \<Longrightarrow>
   prepareRequest e st =
     (formatMessages (withProjectPathSystemPrompt e) (history st) (lastError st), history st, world st)"
  by (simp add: prepareRequest_def Let_def)

lemma add_short:
  "length h < maxHistoryLength \<Longrightarrow> addToConversationHistory m h = h @ [m]"
  by (simp add: addToConversationHistory_def truncate_short)

lemma scripted_run:
  "args \<noteq> [] \<Longrightarrow> name \<in> set dispatchedTools \<Longrightarrow>
   processToolCall (scriptedEnv script behaviour approve)
       \<lparr>tc_id = i, fn_name = name, fn_arguments = args\<rparr> w =
     (\<lparr>result_id = i,
       result_output =
         (case behaviour name of
            Returns s \<Rightarrow> s
          | Throws err \<Rightarrow> ''Error executing tool: '' @ err
          | TimesOut \<Rightarrow> ''Tool execution timed out after 30 seconds''),
       success = True\<rparr>,
      (fst w, snd w @ [name]))"
  by (simp add: processToolCall_executed [where args = args] scriptedEnv_def executeTool_def)

lemma scripted_reply:
  "fst w < length script \<Longrightarrow>
   createChatCompletion (scriptedEnv script behaviour approve) msgs tools w =
     (script ! fst w, (fst w + 1, snd w))"
  by (simp add: scriptedEnv_def)

lemma first_request:
  "prepareRequest e (initialState q [] w) =
     (formatMessages (withProjectPathSystemPrompt e) [userMessage q] None, [userMessage q], w)"
  by (simp add: prepare_short first_state)

lemma silent_run:
  "executeAgentLoop silentEnv ''hello'' [] (0, []) =
     (Returned [], [userMessage ''hello'', silentReply], (1, []))"
proof -
  let ?st = "initialState ''hello'' [] (0, [])"
  have resp: "createChatCompletion silentEnv
        (formatMessages (withProjectPathSystemPrompt silentEnv) [userMessage ''hello''] None)
        True (0, []) = (Inr (Some silentReply), (1, []))"
    by (simp add: silentEnv_def scripted_reply)
  have nocalls: "calls_of silentReply = []"
    by (simp add: calls_of_def silentReply_def)
  have gen: "generateFinalResponse silentReply = []"
    by (simp add: generateFinalResponse_def silentReply_def calls_of_def)
  have it: "iteration silentEnv ?st =
      ?st\<lparr>world := (1, []), history := [userMessage ''hello'', silentReply],
          finalResponse := [], loopComplete := True\<rparr>"
    by (simp add: iteration_reply [OF first_request resp] handle_plain [OF nocalls] gen add_short
                  maxHistoryLength_def)
  have "agentLoop silentEnv 0 ?st = agentLoop silentEnv (0 + 1) (iteration silentEnv ?st)"
    by (intro agentLoop_step) (simp_all add: first_state MAX_ITERATIONS_def)
  also have "\<dots> = (1, iteration silentEnv ?st)"
    using agentLoop_stop [of "iteration silentEnv ?st" 1 silentEnv] by (simp add: it)
  finally have loop: "agentLoop silentEnv 0 ?st = (1, iteration silentEnv ?st)" .
  have "fst (validateApiKey silentEnv)"
    by (simp add: silentEnv_def scriptedEnv_def)
  then show ?thesis
    by (simp add: executeAgentLoop_def case_prod_beta loop it)
qed

lemma offline_iteration:
  assumes "length (history st) \<le> 2"
  shows "iteration offlineEnv st =
     st\<lparr>history := history st, world := (fst (world st) + 1, snd (world st)),
        lastError := Some ''network error''\<rparr>"
proof -
  have resp: "createChatCompletion offlineEnv
      (formatMessages (withProjectPathSystemPrompt offlineEnv) (history st) (lastError st)) True (world st) =
      (Inl ''network error'', (fst (world st) + 1, snd (world st)))"
    by (simp add: offlineEnv_def scriptedEnv_def)
  have "\<not> isValidationError ''network error''"
    by (simp add: isValidationError_def)
  with iteration_failure [OF prepare_short [OF assms] resp, of "''network error''"]
  show ?thesis by simp
qed

lemma offline_loop:
  "length (history st) \<le> 2 \<Longrightarrow> \<not> loopComplete st \<Longrightarrow> \<not> forceExitLoop st \<Longrightarrow>
   n < MAX_ITERATIONS \<Longrightarrow>
   fst (agentLoop offlineEnv n st) = MAX_ITERATIONS \<and>
   \<not> loopComplete (snd (agentLoop offlineEnv n st)) \<and>
   lastError (snd (agentLoop offlineEnv n st)) = Some ''network error''"
proof (induction offlineEnv n st rule: agentLoop.induct)
  case (1 iterations st)
  from "1.prems" have step:
    "agentLoop offlineEnv iterations st = agentLoop offlineEnv (iterations + 1) (iteration offlineEnv st)"
    by (simp add: agentLoop_step)
  note it = offline_iteration [OF "1.prems"(1)]
  show ?case
  proof (cases "iterations + 1 < MAX_ITERATIONS")
    case True
    from "1.prems" have cond: "\<not> loopComplete st \<and> \<not> forceExitLoop st \<and> iterations < MAX_ITERATIONS"
      by simp
    from "1.hyps" [OF cond] "1.prems" True show ?thesis
      unfolding step by (simp add: it)
  next
    case False
    with "1.prems" have "iterations + 1 = MAX_ITERATIONS" by simp
    then have "agentLoop offlineEnv (iterations + 1) (iteration offlineEnv st) =
        (MAX_ITERATIONS, iteration offlineEnv st)"
      by (simp add: agentLoop_stop)
    with "1.prems" show ?thesis
      unfolding step by (simp add: it)
  qed
qed

section \<open>Claims about one iteration and about the loop\<close>

text \<open>
  C2 (the code at the failing input).  The model answers with one \<^verbatim>\<open>create_file\<close> call and
  the user would deny the prompt.  \<^verbatim>\<open>processToolCalls\<close> reports that no confirmation is
  required, the prompt is never shown, the tool runs, and no error is recorded as
  \<^verbatim>\<open>lastError\<close>.
\<close>

theorem create_file_runs_unconfirmed:
  "fst (processToolCalls denyingEnv [sampleCall ''a'' ''create_file''] BREAKING_CHANGE_TOOLS (1, [])) = False \<and>
   lastError (iteration denyingEnv (initialState ''create x'' [] (0, []))) = None \<and>
   world (iteration denyingEnv (initialState ''create x'' [] (0, []))) = (1, [''create_file''])"
proof -
  let ?am = "sampleAssistant [sampleCall ''a'' ''create_file'']"
  let ?st = "initialState ''create x'' [] (0, [])"
  have prep: "prepareRequest denyingEnv ?st =
      (formatMessages (withProjectPathSystemPrompt denyingEnv) [userMessage ''create x''] None,
       [userMessage ''create x''], (0, []))"
    by (simp add: prepare_short first_state)
  have resp: "createChatCompletion denyingEnv
        (formatMessages (withProjectPathSystemPrompt denyingEnv) [userMessage ''create x''] None)
        True (0, []) = (Inr (Some ?am), (1, []))"
    by (simp add: denyingEnv_def scripted_reply)
  have calls: "calls_of ?am = [\<lparr>tc_id = ''a'', fn_name = ''create_file'', fn_arguments = ''{}''\<rparr>]"
    by (simp add: calls_of_def sampleAssistant_def sampleCall_def)
  have nonempty: "calls_of ?am \<noteq> []"
    by (simp add: calls)
  have nodone: "List.find (\<lambda>toolCall. fn_name toolCall = ''done'') (calls_of ?am) = None"
    by (simp add: calls)
  have run: "processToolCall denyingEnv \<lparr>tc_id = ''a'', fn_name = ''create_file'', fn_arguments = ''{}''\<rparr> w =
      (\<lparr>result_id = ''a'', result_output = ''File created successfully'', success = True\<rparr>,
       (fst w, snd w @ [''create_file'']))" for w
    by (simp add: denyingEnv_def scripted_run dispatchedTools_def)
  have it: "iteration denyingEnv ?st =
      handleAssistantMessage denyingEnv ?am
        (?st\<lparr>world := (1, []), history := addToConversationHistory ?am [userMessage ''create x'']\<rparr>)"
    by (rule iteration_reply [OF prep resp])
  have "lastError (iteration denyingEnv ?st) = None \<and>
        world (iteration denyingEnv ?st) = (1, [''create_file''])"
    unfolding it handle_tools [OF nonempty nodone] calls processEach_single run
    by (simp add: first_state)
  then show ?thesis by (simp add: processToolCalls_confirmation)
qed

text \<open>
  C5.  Let the model's reply in an iteration be an assistant message one of whose tool
  calls is named \<^verbatim>\<open>done\<close>, and let \<open>doneToolCall\<close> be the first such call.  Then the iteration
  stores the assistant message followed by exactly one tool message, the response to
  \<open>doneToolCall\<close>; the world afterwards is the world after processing \<open>doneToolCall\<close> alone
  (no sibling call runs); the final response is that call's output text, or the Response
  Generator's text when the output is empty; and the loop is complete, it performs no
  further iteration.  When this is iteration \<open>k + 1\<close> of a run of \<^verbatim>\<open>executeAgentLoop\<close> with
  a valid key, the run returns that final response.
\<close>

theorem done_short_circuit:
  assumes "prepareRequest e st = (messages, h1, w1)"
    and "createChatCompletion e messages True w1 = (Inr (Some assistantMessage), w2)"
    and "List.find (\<lambda>toolCall. fn_name toolCall = ''done'') (calls_of assistantMessage) = Some doneToolCall"
    and "processToolCall e doneToolCall w2 = (r, w3)"
  shows "history (iteration e st) =
           addToConversationHistory (toolMessage r) (addToConversationHistory assistantMessage h1) \<and>
         world (iteration e st) = w3 \<and>
         finalResponse (iteration e st) =
           (if result_output r \<noteq> [] then result_output r else generateFinalResponse assistantMessage) \<and>
         loopComplete (iteration e st) \<and>
         agentLoop e n (iteration e st) = (n, iteration e st) \<and>
         (fst (validateApiKey e) \<and> k < MAX_ITERATIONS \<and>
          st = (iteration e ^^ k) (initialState query h w) \<and>
          (\<forall>j \<le> k. \<not> loopComplete ((iteration e ^^ j) (initialState query h w)) \<and>
                    \<not> forceExitLoop ((iteration e ^^ j) (initialState query h w))) \<longrightarrow>
          executeAgentLoop e query h w =
            (Returned (if result_output r \<noteq> [] then result_output r
                       else generateFinalResponse assistantMessage),
             addToConversationHistory (toolMessage r) (addToConversationHistory assistantMessage h1),
             w3))"
proof -
  from assms(1,2) have
    "iteration e st =
       handleAssistantMessage e assistantMessage
         (st\<lparr>world := w2, history := addToConversationHistory assistantMessage h1\<rparr>)"
    by (rule iteration_reply)
  with assms(4) handle_done [OF assms(3), of e "st\<lparr>world := w2, history := addToConversationHistory assistantMessage h1\<rparr>"]
  have *: "history (iteration e st) =
           addToConversationHistory (toolMessage r) (addToConversationHistory assistantMessage h1)"
    "world (iteration e st) = w3"
    "finalResponse (iteration e st) =
           (if result_output r \<noteq> [] then result_output r else generateFinalResponse assistantMessage)"
    "loopComplete (iteration e st)"
    by simp_all
  from *(4) have stop: "agentLoop e n (iteration e st) = (n, iteration e st)"
    by (intro agentLoop_stop) simp
  have "executeAgentLoop e query h w =
            (Returned (if result_output r \<noteq> [] then result_output r
                       else generateFinalResponse assistantMessage),
             addToConversationHistory (toolMessage r) (addToConversationHistory assistantMessage h1),
             w3)"
    if run: "fst (validateApiKey e) \<and> k < MAX_ITERATIONS \<and>
          st = (iteration e ^^ k) (initialState query h w) \<and>
          (\<forall>j \<le> k. \<not> loopComplete ((iteration e ^^ j) (initialState query h w)) \<and>
                    \<not> forceExitLoop ((iteration e ^^ j) (initialState query h w)))"
  proof -
    from run *(4) have "loopComplete (iteration e ((iteration e ^^ k) (initialState query h w)))"
      by simp
    with run have "executeAgentLoop e query h w =
           (Returned (finalResponse (iteration e ((iteration e ^^ k) (initialState query h w)))),
            history (iteration e ((iteration e ^^ k) (initialState query h w))),
            world (iteration e ((iteration e ^^ k) (initialState query h w))))"
      by (intro conjunct1 [OF executeAgentLoop_completes]) simp_all
    with run * show ?thesis by simp
  qed
  with * stop show ?thesis by blast
qed

theorem done_short_circuit_witness:
  "history (iteration doneEnv (initialState ''finish'' [] (0, []))) =
     [userMessage ''finish'',
      sampleAssistant [sampleCall ''a'' ''create_file'', sampleCall ''b'' ''done''],
      \<lparr>role = Tool, content = Some ''Task completed: x'', tool_calls = None, tool_call_id = Some ''b''\<rparr>] \<and>
   world (iteration doneEnv (initialState ''finish'' [] (0, []))) = (1, [''done'']) \<and>
   loopComplete (iteration doneEnv (initialState ''finish'' [] (0, []))) \<and>
   fst (executeAgentLoop doneEnv ''finish'' [] (0, [])) = Returned ''Task completed: x''"
proof -
  let ?am = "sampleAssistant [sampleCall ''a'' ''create_file'', sampleCall ''b'' ''done'']"
  have resp: "createChatCompletion doneEnv
        (formatMessages (withProjectPathSystemPrompt doneEnv) [userMessage ''finish''] None)
        True (0, []) = (Inr (Some ?am), (1, []))"
    by (simp add: doneEnv_def scripted_reply)
  have found: "List.find (\<lambda>toolCall. fn_name toolCall = ''done'') (calls_of ?am) =
      Some (sampleCall ''b'' ''done'')"
    by (simp add: calls_of_def sampleAssistant_def sampleCall_def)
  have run: "processToolCall doneEnv (sampleCall ''b'' ''done'') (1, []) =
      (\<lparr>result_id = ''b'', result_output = ''Task completed: x'', success = True\<rparr>, (1, [''done'']))"
    by (simp add: doneEnv_def sampleCall_def scripted_run dispatchedTools_def)
  have valid: "fst (validateApiKey doneEnv)"
    by (simp add: doneEnv_def scriptedEnv_def)
  have start: "initialState ''finish'' [] (0, []) =
      (iteration doneEnv ^^ 0) (initialState ''finish'' [] (0, []))"
    by simp
  have running: "\<forall>j \<le> 0. \<not> loopComplete ((iteration doneEnv ^^ j) (initialState ''finish'' [] (0, []))) \<and>
                        \<not> forceExitLoop ((iteration doneEnv ^^ j) (initialState ''finish'' [] (0, [])))"
    by (simp add: first_state)
  have k: "0 < MAX_ITERATIONS" by (simp add: MAX_ITERATIONS_def)
  from done_short_circuit [OF first_request resp found run, of 1 0 "''finish''" "[]" "(0, [])"]
    valid start running k
  show ?thesis
    by (simp add: add_short maxHistoryLength_def toolMessage_def)
qed

text \<open>
  C6.  Let the key be valid and let the loop reach its iteration \<open>k + 1\<close> without having
  completed.  If the chat-completion call of that iteration fails with an error whose
  message contains \<^verbatim>\<open>400 Invalid parameter\<close>, the tool-role sequencing complaint or
  \<^verbatim>\<open>invalid_request_error\<close>, then \<^verbatim>\<open>executeAgentLoop\<close> returns the fixed reset message, the
  stored history is empty afterwards, and the loop stops after that iteration: the world
  is the one the failed call left, no further request is made.
\<close>

theorem protocol_violation_resets:
  assumes valid: "fst (validateApiKey e)"
    and k: "k < MAX_ITERATIONS"
    and running: "\<forall>j \<le> k. \<not> loopComplete ((iteration e ^^ j) (initialState query h w)) \<and>
                          \<not> forceExitLoop ((iteration e ^^ j) (initialState query h w))"
    and prepare: "prepareRequest e ((iteration e ^^ k) (initialState query h w)) = (messages, h1, w1)"
    and failure: "createChatCompletion e messages True w1 = (Inl msg, w2)"
    and violation: "isValidationError msg"
  shows "executeAgentLoop e query h w = (Returned apiResetMessage, [], w2) \<and>
         fst (agentLoop e 0 (initialState query h w)) = k + 1"
proof -
  let ?st = "(iteration e ^^ k) (initialState query h w)"
  from prepare failure violation have it:
    "iteration e ?st =
       ?st\<lparr>history := [], world := w2, forceExitLoop := True, loopComplete := True,
           finalResponse := apiResetMessage\<rparr>"
    by (simp add: iteration_failure [where msg = msg])
  from running k have "agentLoop e 0 (initialState query h w) = agentLoop e (0 + k) ?st"
    by (intro agentLoop_unroll) simp_all
  also from running k have "\<dots> = agentLoop e (k + 1) (iteration e ?st)"
    by (simp add: agentLoop_step)
  also have "\<dots> = (k + 1, iteration e ?st)"
    by (intro agentLoop_stop) (simp add: it)
  finally have loop: "agentLoop e 0 (initialState query h w) = (k + 1, iteration e ?st)" .
  from valid have "executeAgentLoop e query h w =
      (Returned (if \<not> loopComplete (iteration e ?st) then exceededMessage (lastError (iteration e ?st))
                 else finalResponse (iteration e ?st)),
       history (iteration e ?st), world (iteration e ?st))"
    by (simp add: executeAgentLoop_def case_prod_beta loop)
  with loop show ?thesis by (simp add: it)
qed

theorem protocol_violation_resets_witness:
  "executeAgentLoop rejectingEnv ''list files'' [] (0, []) = (Returned apiResetMessage, [], (1, []))"
proof -
  have valid: "fst (validateApiKey rejectingEnv)"
    by (simp add: rejectingEnv_def scriptedEnv_def)
  have running: "\<forall>j \<le> 0. \<not> loopComplete ((iteration rejectingEnv ^^ j) (initialState ''list files'' [] (0, []))) \<and>
                        \<not> forceExitLoop ((iteration rejectingEnv ^^ j) (initialState ''list files'' [] (0, [])))"
    by (simp add: first_state)
  have prep: "prepareRequest rejectingEnv ((iteration rejectingEnv ^^ 0) (initialState ''list files'' [] (0, []))) =
      (formatMessages (withProjectPathSystemPrompt rejectingEnv) [userMessage ''list files''] None,
       [userMessage ''list files''], (0, []))"
    by (simp add: first_request)
  have resp: "createChatCompletion rejectingEnv
        (formatMessages (withProjectPathSystemPrompt rejectingEnv) [userMessage ''list files''] None)
        True (0, []) = (Inl ''400 invalid_request_error: bad message sequence'', (1, []))"
    by (simp add: rejectingEnv_def scripted_reply)
  have viol: "isValidationError ''400 invalid_request_error: bad message sequence''"
    by (simp add: isValidationError_def)
  have k: "0 < MAX_ITERATIONS" by (simp add: MAX_ITERATIONS_def)
  from protocol_violation_resets [OF valid k running prep resp viol] show ?thesis
    by simp
qed

text \<open>
  C7 (as amended).  \<^verbatim>\<open>executeAgentLoop\<close> throws to its caller only when the key validation
  fails, and then the validation error.  Whenever it returns, the text is non-empty,
  except when the terminal assistant message, the last message stored, has neither
  content nor tool calls: then the Response Generator's default, the empty text, is
  returned.
\<close>

theorem response_text_or_silent_reply:
  "(case executeAgentLoop e query h w of
      (Thrown msg, h', w') \<Rightarrow>
        \<not> fst (validateApiKey e) \<and>
        msg = ''OpenAI API key validation failed: '' @ snd (validateApiKey e)
    | (Returned txt, h', w') \<Rightarrow>
        txt \<noteq> [] \<or>
        (h' \<noteq> [] \<and> \<not> truthy (content (last h')) \<and> calls_of (last h') = []))"
proof (cases "fst (validateApiKey e)")
  case False
  then show ?thesis
    by (simp add: executeAgentLoop_def case_prod_beta Let_def criticalResetMessage_def)
next
  case True
  let ?fin = "snd (agentLoop e 0 (initialState query h w))"
  have "answered (initialState query h w)"
    by (simp add: answered_def initialState_def)
  then have "answered ?fin" by (rule agentLoop_answered)
  with True show ?thesis
    by (auto simp: executeAgentLoop_def case_prod_beta answered_def exceededMessage_nonempty)
qed

theorem response_text_or_silent_reply_witness:
  "fst (executeAgentLoop silentEnv ''hello'' [] (0, [])) = Returned [] \<and>
   fst (snd (executeAgentLoop silentEnv ''hello'' [] (0, []))) \<noteq> [] \<and>
   calls_of (last (fst (snd (executeAgentLoop silentEnv ''hello'' [] (0, []))))) = []"
proof -
  obtain h' w' where run: "executeAgentLoop silentEnv ''hello'' [] (0, []) = (Returned [], h', w')"
    using silent_run by blast
  from response_text_or_silent_reply [of silentEnv "''hello''" "[]" "(0, [])"]
  have "h' \<noteq> [] \<and> \<not> truthy (content (last h')) \<and> calls_of (last h') = []"
    unfolding run by simp
  with run show ?thesis by simp
qed

text \<open>The model answers with an assistant message without content and without tool calls:
  the loop returns the empty text.\<close>

theorem empty_response_counterexample:
  "fst (executeAgentLoop silentEnv ''hello'' [] (0, [])) = Returned []"
  by (simp add: silent_run)

text \<open>
  C8.  With a valid key the loop performs at most \<^verbatim>\<open>MAX_ITERATIONS\<close> iterations and
  \<^verbatim>\<open>executeAgentLoop\<close> returns: the final response when the loop completed, and otherwise,
  after exactly \<^verbatim>\<open>MAX_ITERATIONS\<close> iterations, the iteration-exceeded message, which embeds
  the text of \<^verbatim>\<open>lastError\<close> when one was recorded.  With an invalid key no iteration runs:
  the call throws the validation error or returns the reset notice.  (The chat-completion
  call, the tools under their timeout and the prompt are total functions of the model:
  each returns.)
\<close>

theorem agent_loop_terminates:
  "(fst (validateApiKey e) \<longrightarrow>
      (\<exists>k st. agentLoop e 0 (initialState query h w) = (k, st) \<and> k \<le> MAX_ITERATIONS \<and>
         (loopComplete st \<longrightarrow>
            executeAgentLoop e query h w = (Returned (finalResponse st), history st, world st)) \<and>
         (\<not> loopComplete st \<longrightarrow>
            k = MAX_ITERATIONS \<and>
            executeAgentLoop e query h w =
              (Returned (''I'm sorry, but I encountered an issue while processing your request. '' @
                         (case lastError st of
                            Some msg \<Rightarrow> ''Error: '' @ msg
                          | None \<Rightarrow> ''Please try again with a clearer or simpler query.'')),
               history st, world st)))) \<and>
   (\<not> fst (validateApiKey e) \<longrightarrow>
      fst (executeAgentLoop e query h w) \<in>
        {Thrown (''OpenAI API key validation failed: '' @ snd (validateApiKey e)),
         Returned criticalResetMessage})"
proof (intro conjI impI)
  assume valid: "fst (validateApiKey e)"
  let ?k = "fst (agentLoop e 0 (initialState query h w))"
  let ?st = "snd (agentLoop e 0 (initialState query h w))"
  have bound: "?k \<le> MAX_ITERATIONS" by (rule agentLoop_bound) simp
  have "forceExitLoop ?st \<longrightarrow> loopComplete ?st"
    by (rule agentLoop_force) (simp add: initialState_def)
  with agentLoop_final [of 0 e "initialState query h w"]
  have full: "\<not> loopComplete ?st \<longrightarrow> ?k = MAX_ITERATIONS" by auto
  from valid have ret: "executeAgentLoop e query h w =
      (Returned (if \<not> loopComplete ?st then exceededMessage (lastError ?st) else finalResponse ?st),
       history ?st, world ?st)"
    by (simp add: executeAgentLoop_def case_prod_beta)
  have "agentLoop e 0 (initialState query h w) = (?k, ?st)" by simp
  moreover from ret have "loopComplete ?st \<longrightarrow>
      executeAgentLoop e query h w = (Returned (finalResponse ?st), history ?st, world ?st)"
    by simp
  moreover from ret full have "\<not> loopComplete ?st \<longrightarrow>
            ?k = MAX_ITERATIONS \<and>
            executeAgentLoop e query h w =
              (Returned (''I'm sorry, but I encountered an issue while processing your request. '' @
                         (case lastError ?st of
                            Some msg \<Rightarrow> ''Error: '' @ msg
                          | None \<Rightarrow> ''Please try again with a clearer or simpler query.'')),
               history ?st, world ?st)"
    by (simp add: exceededMessage_def)
  ultimately show "\<exists>k st. agentLoop e 0 (initialState query h w) = (k, st) \<and> k \<le> MAX_ITERATIONS \<and>
         (loopComplete st \<longrightarrow>
            executeAgentLoop e query h w = (Returned (finalResponse st), history st, world st)) \<and>
         (\<not> loopComplete st \<longrightarrow>
            k = MAX_ITERATIONS \<and>
            executeAgentLoop e query h w =
              (Returned (''I'm sorry, but I encountered an issue while processing your request. '' @
                         (case lastError st of
                            Some msg \<Rightarrow> ''Error: '' @ msg
                          | None \<Rightarrow> ''Please try again with a clearer or simpler query.'')),
               history st, world st))"
    using bound by blast
next
  assume "\<not> fst (validateApiKey e)"
  then show "fst (executeAgentLoop e query h w) \<in>
        {Thrown (''OpenAI API key validation failed: '' @ snd (validateApiKey e)),
         Returned criticalResetMessage}"
    by (simp add: executeAgentLoop_def case_prod_beta Let_def)
qed

theorem agent_loop_terminates_witness:
  "fst (agentLoop offlineEnv 0 (initialState ''hello'' [] (0, []))) = 10 \<and>
   fst (executeAgentLoop offlineEnv ''hello'' [] (0, [])) =
     Returned ''I'm sorry, but I encountered an issue while processing your request. Error: network error''"
proof -
  let ?st = "initialState ''hello'' [] (0, [])"
  have valid: "fst (validateApiKey offlineEnv)"
    by (simp add: offlineEnv_def scriptedEnv_def)
  have off: "fst (agentLoop offlineEnv 0 ?st) = MAX_ITERATIONS \<and>
      \<not> loopComplete (snd (agentLoop offlineEnv 0 ?st)) \<and>
      lastError (snd (agentLoop offlineEnv 0 ?st)) = Some ''network error''"
    by (rule offline_loop) (simp_all add: first_state MAX_ITERATIONS_def)
  from agent_loop_terminates [of offlineEnv "''hello''" "[]" "(0, [])"] valid
  obtain k st where ks: "agentLoop offlineEnv 0 ?st = (k, st)"
    and incomplete: "\<not> loopComplete st \<longrightarrow>
            k = MAX_ITERATIONS \<and>
            executeAgentLoop offlineEnv ''hello'' [] (0, []) =
              (Returned (''I'm sorry, but I encountered an issue while processing your request. '' @
                         (case lastError st of
                            Some msg \<Rightarrow> ''Error: '' @ msg
                          | None \<Rightarrow> ''Please try again with a clearer or simpler query.'')),
               history st, world st)"
    by blast
  from off ks have "\<not> loopComplete st" "lastError st = Some ''network error''" by simp_all
  with incomplete ks show ?thesis
    by (simp add: MAX_ITERATIONS_def)
qed

section \<open>Summarization\<close>

text \<open>
  C9.  \<^verbatim>\<open>summarizeConversationHistory\<close> leaves the stored history as it was, whatever the
  chat-completion client does.  When the history is not empty and the client fails, the
  summary is the templated text with the numbers of user, assistant and tool messages, and
  it carries the collected file references; when the client answers, the summary is the
  answer's content (or the fixed text for an empty answer) with the same file references.
\<close>

theorem summarize_leaves_history:
  "fst (snd (summarizeConversationHistory e maxTokens h w)) = h \<and>
   (h \<noteq> [] \<and> fst (createChatCompletion e (summaryRequest h) False w) = Inl err \<longrightarrow>
      summary_content (fst (summarizeConversationHistory e maxTokens h w)) =
        ''Conversation summary (fallback): '' @ show_nat (countRole User h) @ '' user messages, '' @
        show_nat (countRole Assistant h) @ '' assistant messages, '' @
        show_nat (countRole Tool h) @ '' tool interactions.'' \<and>
      file_references (fst (summarizeConversationHistory e maxTokens h w)) =
        Some (collectFileReferences e h)) \<and>
   (h \<noteq> [] \<and> fst (createChatCompletion e (summaryRequest h) False w) = Inr reply \<longrightarrow>
      summary_content (fst (summarizeConversationHistory e maxTokens h w)) =
        (case reply of
           None \<Rightarrow> ''Failed to generate conversation summary.''
         | Some m \<Rightarrow> if truthy (content m) then the (content m)
                    else ''Failed to generate conversation summary.'') \<and>
      file_references (fst (summarizeConversationHistory e maxTokens h w)) =
        Some (collectFileReferences e h))"
  by (simp add: summarizeConversationHistory_def case_prod_beta Let_def fallbackSummary_def
           split: sum.splits)

theorem summarize_leaves_history_witness:
  "fst (snd (summarizeConversationHistory offlineEnv 2000 sampleTranscript (0, []))) = sampleTranscript \<and>
   summary_content (fst (summarizeConversationHistory offlineEnv 2000 sampleTranscript (0, []))) =
     ''Conversation summary (fallback): 5 user messages, 3 assistant messages, 3 tool interactions.''"
proof -
  have nonempty: "sampleTranscript \<noteq> []"
    by (simp add: sampleTranscript_def)
  have failure: "fst (createChatCompletion offlineEnv (summaryRequest sampleTranscript) False (0, [])) =
      Inl ''network error''"
    by (simp add: offlineEnv_def scriptedEnv_def)
  have counts: "show_nat (countRole User sampleTranscript) = ''5''"
    "show_nat (countRole Assistant sampleTranscript) = ''3''"
    "show_nat (countRole Tool sampleTranscript) = ''3''"
    by code_simp+
  from summarize_leaves_history [of offlineEnv 2000 sampleTranscript "(0, [])" "''network error''" None]
    nonempty failure
  show ?thesis by (simp add: counts)
qed

text \<open>
  C10.  On an empty history the result is the system-role message with the content
  \<^verbatim>\<open>No conversation history yet.\<close>, the summary type \<^verbatim>\<open>conversation_history\<close> and no
  \<^verbatim>\<open>file_references\<close>; the world is unchanged and the result is the same whatever the
  chat-completion client is: it is not invoked.
\<close>

theorem summarize_empty_history:
  "summarizeConversationHistory (e\<lparr>createChatCompletion := client\<rparr>) maxTokens [] w =
     (\<lparr>summary_role = System, summary_content = ''No conversation history yet.'',
       summary_type = ''conversation_history'', file_references = None, timestamp = now e w\<rparr>,
      [], w)"
  by (simp add: summarizeConversationHistory_def)

end
